theory Spec2Isabelle
  imports Main "HOL-Library.Word"
begin

section \<open>Machine types and checked arithmetic\<close>

text \<open>
  Parameters that would clash with a field name are abbreviated: \<open>tid\<close> is the
  source's \<open>tokenId\<close>, \<open>amt\<close> its \<open>price\<close> or \<open>startingPrice\<close>, \<open>tok\<close> its
  \<open>paymentToken\<close>, \<open>sender\<close> is \<open>msg.sender\<close>, \<open>val\<close> is \<open>msg.value\<close> and
  \<open>now\<close> is \<open>block.timestamp\<close>.

  The ledger is the contract \<open>NFTMarketplace\<close> (Solidity 0.8): \<open>uint256\<close> values are
  256-bit words, addresses are 160-bit words with \<open>address(0) = 0\<close>. Arithmetic on
  \<open>uint256\<close> is checked: an overflow or underflow aborts the call (\<open>Panic\<close>), it
  does not wrap.
\<close>

type_synonym uint256 = "256 word"
type_synonym uint96 = "96 word"
type_synonym address = "160 word"

datatype error =
    NotTokenOwner
  | NFTNotApproved
  | TokenDoesNotExist
  | PriceMustBePositive
  | InvalidPaymentToken
  | AlreadyListed
  | TokenInAuction
  | NotListedForSale
  | CannotBuyOwnNFT
  | InsufficientETH
  | ETHNotAcceptedForERC20Payment
  | PaymentTransferFailed
  | RoyaltyTransferFailed
  | SellerTransferFailed
  | FeeTransferFailed
  | NotListed
  | StartingPriceMustBePositive
  | InvalidDuration
  | TokenIsListed
  | AuctionAlreadyExists
  | AuctionNotActive
  | AuctionEnded
  | CannotBidOnOwnAuction
  | BidBelowStartingPrice
  | BidTooLow
  | ETHNotAcceptedForERC20Auction
  | ERC20AuctionsNotImplemented
  | AuctionNotEnded
  | NoFundsToWithdraw
  | FeeTooHigh
  | OwnableUnauthorizedAccount
  | EnforcedPause
  | ExpectedPause
  | ERC721NonexistentToken
  | ERC721IncorrectOwner
  | ERC721InvalidReceiver
  | ERC721InvalidSender
  | ERC721InsufficientApproval
  | ERC2981InvalidTokenRoyalty
  | ArithmeticPanic
  | ExternalCallReverted
  | NonPayable

definition checked_add :: "uint256 \<Rightarrow> uint256 \<Rightarrow> error + uint256" where
  "checked_add a b = (if unat a + unat b < 2 ^ 256 then Inr (a + b) else Inl ArithmeticPanic)"

definition checked_sub :: "uint256 \<Rightarrow> uint256 \<Rightarrow> error + uint256" where
  "checked_sub a b = (if b \<le> a then Inr (a - b) else Inl ArithmeticPanic)"

definition checked_mul :: "uint256 \<Rightarrow> uint256 \<Rightarrow> error + uint256" where
  "checked_mul a b = (if unat a * unat b < 2 ^ 256 then Inr (a * b) else Inl ArithmeticPanic)"

section \<open>Storage\<close>

record Listing =
  tokenId :: uint256
  seller :: address
  price :: uint256
  paymentToken :: address
  active :: bool
  createdAt :: uint256

record Auction =
  tokenId :: uint256
  seller :: address
  startingPrice :: uint256
  currentBid :: uint256
  currentBidder :: address
  paymentToken :: address
  endTime :: uint256
  active :: bool
  createdAt :: uint256

text \<open>\<open>delete listings[id]\<close> and \<open>delete auctions[id]\<close> reset every field to zero.\<close>

definition deletedListing :: Listing where
  "deletedListing = \<lparr>Listing.tokenId = 0, seller = 0, price = 0, paymentToken = 0,
     active = False, createdAt = 0\<rparr>"

definition deletedAuction :: Auction where
  "deletedAuction = \<lparr>Auction.tokenId = 0, seller = 0, startingPrice = 0, currentBid = 0,
     currentBidder = 0, paymentToken = 0, endTime = 0, active = False, createdAt = 0\<rparr>"

text \<open>
  The events of the contract. The event \<open>AuctionEnded\<close> is written
  \<open>AuctionEndedEvent\<close>, the name being taken by the revert reason "Auction ended".
\<close>

datatype event =
    NFTMinted uint256 address string
  | NFTListed uint256 address uint256 address
  | NFTSold uint256 address address uint256 address
  | ListingCancelled uint256 address
  | AuctionCreated uint256 address uint256 uint256 address
  | BidPlaced uint256 address uint256
  | AuctionEndedEvent uint256 address uint256
  | MarketplaceFeeUpdated uint256
  | USDTTokenUpdated address
  | NFTApproved uint256 bool
  | RoyaltySet uint256 address uint96

text \<open>
  The contract's storage. \<open>listings\<close>, \<open>auctions\<close>, \<open>pendingWithdrawals\<close>,
  \<open>approvedNFTs\<close>, \<open>marketplaceFee\<close>, \<open>usdtToken\<close> and \<open>tokenIdCounter\<close> are the
  contract's own variables. The other fields are the storage of the inherited parts it
  calls into, which are library code outside the repository and are modelled from the
  spec's description of the collaborators: \<open>owners\<close> is the ownership registry
  (\<open>0\<close> for an item that does not exist), \<open>tokenRoyaltyInfo\<close> the per-item royalty
  policy fixed at mint time, \<open>owner\<close> the administrator, \<open>paused\<close> the circuit
  breaker. \<open>self\<close> is \<open>address(this)\<close>; \<open>events\<close> is the log of emitted events, newest
  last.
\<close>

record NFTMarketplace =
  self :: address
  owner :: address
  paused :: bool
  owners :: "uint256 \<Rightarrow> address"
  tokenURIs :: "uint256 \<Rightarrow> string"
  tokenRoyaltyInfo :: "uint256 \<Rightarrow> address \<times> uint96"
  tokenIdCounter :: uint256
  marketplaceFee :: uint256
  usdtToken :: address
  listings :: "uint256 \<Rightarrow> Listing"
  auctions :: "uint256 \<Rightarrow> Auction"
  pendingWithdrawals :: "address \<Rightarrow> uint256"
  approvedNFTs :: "uint256 \<Rightarrow> bool"
  events :: "event list"

definition MAX_MARKETPLACE_FEE :: uint256 where
  "MAX_MARKETPLACE_FEE = 1000"

definition emit :: "event \<Rightarrow> NFTMarketplace \<Rightarrow> NFTMarketplace" where
  "emit e s = s\<lparr>events := events s @ [e]\<rparr>"

text \<open>The constructor: \<open>deployer\<close> becomes the administrator, the fee starts at 250 bps.\<close>

definition constructor :: "address \<Rightarrow> address \<Rightarrow> address \<Rightarrow> NFTMarketplace" where
  "constructor this deployer usdt =
     \<lparr>self = this, owner = deployer, paused = False, owners = (\<lambda>_. 0),
      tokenURIs = (\<lambda>_. []), tokenRoyaltyInfo = (\<lambda>_. (0, 0)), tokenIdCounter = 0,
      marketplaceFee = 250, usdtToken = usdt, listings = (\<lambda>_. deletedListing),
      auctions = (\<lambda>_. deletedAuction), pendingWithdrawals = (\<lambda>_. 0),
      approvedNFTs = (\<lambda>_. False), events = []\<rparr>"

section \<open>External collaborators\<close>

text \<open>
  The payment rails and token receivers are other accounts and contracts. They are a
  parameter of the model: a record of functions over an arbitrary world state \<open>'w\<close>.
  Every function receives the ledger's storage as it stands at the moment of the
  call (the callee can read it through the public getters), and returns \<open>None\<close> when
  the callee reverts. The callee cannot write the ledger's storage: the entry points that
  move funds are \<open>nonReentrant\<close>, whose guard is therefore never triggered here and is not
  represented.
  \<^item> \<open>pay m to amount\<close> is \<open>payable(to).transfer(amount)\<close>;
  \<open>None\<close> when the recipient cannot accept the funds or the ledger does not hold them.
  \<^item> \<open>erc20_transferFrom m token from to amount\<close>, \<open>erc20_transfer m token to amount\<close>
  and \<open>erc20_balanceOf m token holder\<close> are the calls on \<open>IERC20(token)\<close>, with their
  boolean results.
  \<^item> \<open>native_balance w a\<close> is the native balance of account \<open>a\<close>.
  \<^item> \<open>onERC721Received m operator from to tid\<close> is the acceptance check of a safe
  mint: \<open>True\<close> when \<open>to\<close> is not a contract or answers with the expected selector.
\<close>

record 'w rail =
  pay :: "NFTMarketplace \<Rightarrow> address \<Rightarrow> uint256 \<Rightarrow> 'w \<Rightarrow> 'w option"
  erc20_transferFrom ::
    "NFTMarketplace \<Rightarrow> address \<Rightarrow> address \<Rightarrow> address \<Rightarrow> uint256 \<Rightarrow> 'w \<Rightarrow> (bool \<times> 'w) option"
  erc20_transfer ::
    "NFTMarketplace \<Rightarrow> address \<Rightarrow> address \<Rightarrow> uint256 \<Rightarrow> 'w \<Rightarrow> (bool \<times> 'w) option"
  erc20_balanceOf :: "NFTMarketplace \<Rightarrow> address \<Rightarrow> address \<Rightarrow> 'w \<Rightarrow> uint256 option"
  native_balance :: "'w \<Rightarrow> address \<Rightarrow> uint256"
  onERC721Received ::
    "NFTMarketplace \<Rightarrow> address \<Rightarrow> address \<Rightarrow> address \<Rightarrow> uint256 \<Rightarrow> 'w \<Rightarrow> (bool \<times> 'w) option"

text \<open>\<open>payable(to).transfer(amount)\<close>: a failed transfer aborts the call.\<close>

definition transfer :: "'w rail \<Rightarrow> NFTMarketplace \<Rightarrow> address \<Rightarrow> uint256 \<Rightarrow> 'w \<Rightarrow> error + 'w" where
  "transfer r m to amount w =
     (case pay r m to amount w of None \<Rightarrow> Inl ExternalCallReverted | Some w' \<Rightarrow> Inr w')"

text \<open>\<open>require(call(...), reason)\<close> on a call that returns a boolean.\<close>

definition requireCall :: "(bool \<times> 'w) option \<Rightarrow> error \<Rightarrow> error + 'w" where
  "requireCall res reason =
     (case res of None \<Rightarrow> Inl ExternalCallReverted
      | Some (ok, w') \<Rightarrow> if ok then Inr w' else Inl reason)"

section \<open>Inherited operations\<close>

text \<open>
  The contract inherits its ownership registry, royalty lookup, access control and
  circuit breaker from a library that is not in the repository. The parts the entry
  points call are modelled from the spec's description of these collaborators (section
  6) and from what the repository's tests observe of them.
\<close>

text \<open>
  Modelled from the spec: \<open>ownerOf(itemId) -> account\<close> of the ownership registry. It
  fails for an item that does not exist.
\<close>

definition ownerOf :: "NFTMarketplace \<Rightarrow> uint256 \<Rightarrow> error + address" where
  "ownerOf s tid =
     (if owners s tid = 0 then Inl ERC721NonexistentToken else Inr (owners s tid))"

text \<open>
  Modelled from the spec: the registry's internal \<open>transfer(from, to, itemId)\<close>, called
  as \<open>_transfer\<close> by \<open>buyNFT\<close> and \<open>endAuction\<close>. It fails unless \<open>from\<close> is the
  current owner of the item and \<open>to\<close> is not the zero address.
\<close>

definition transferNFT :: "NFTMarketplace \<Rightarrow> address \<Rightarrow> address \<Rightarrow> uint256 \<Rightarrow> error + NFTMarketplace" where
  "transferNFT s from to tid =
     (if to = 0 then Inl ERC721InvalidReceiver
      else if owners s tid = 0 then Inl ERC721NonexistentToken
      else if owners s tid \<noteq> from then Inl ERC721IncorrectOwner
      else Inr (s\<lparr>owners := (owners s)(tid := to)\<rparr>))"

text \<open>
  Modelled from the spec: the royalty lookup
  \<open>royaltyInfo(itemId, salePrice) -> (recipient, amount)\<close>. The amount is
  \<open>salePrice * rate / 10000\<close>, rounded down, for the recipient and rate recorded at mint
  time (the tests observe 5% of the price for a rate of 500), and \<open>(0, 0)\<close> for an item
  without a royalty policy; no default policy is ever set by the contract.
\<close>

definition royaltyInfo :: "NFTMarketplace \<Rightarrow> uint256 \<Rightarrow> uint256 \<Rightarrow> error + address \<times> uint256" where
  "royaltyInfo s tid salePrice =
     (let (receiver, fraction) = tokenRoyaltyInfo s tid;
          (receiver, fraction) = (if receiver = 0 then (0, 0) else (receiver, fraction))
      in case checked_mul salePrice (ucast fraction) of
           Inl e \<Rightarrow> Inl e
         | Inr product \<Rightarrow> Inr (receiver, product div 10000))"

text \<open>
  Modelled from the spec: the registry's public \<open>transferFrom(from, to, itemId)\<close>, which
  the contract inherits and the tests call: the owner hands the item to another account.
  (Transfers by approved operators are covered by the rule \<open>item_transferred\<close> of the
  reachable states below.)
\<close>

definition transferFrom ::
  "NFTMarketplace \<Rightarrow> address \<Rightarrow> address \<Rightarrow> address \<Rightarrow> uint256 \<Rightarrow> error + NFTMarketplace" where
  "transferFrom s sender from to tid =
     (if to = 0 then Inl ERC721InvalidReceiver
      else if owners s tid = 0 then Inl ERC721NonexistentToken
      else if owners s tid \<noteq> sender then Inl ERC721InsufficientApproval
      else if owners s tid \<noteq> from then Inl ERC721IncorrectOwner
      else Inr (s\<lparr>owners := (owners s)(tid := to)\<rparr>))"

text \<open>
  The modifiers. \<open>onlyTokenOwner\<close> and \<open>onlyApprovedNFT\<close> are the contract's own;
  \<open>whenNotPaused\<close> and \<open>onlyOwner\<close> are inherited (modelled from the spec: the global
  circuit breaker, and "caller == administrator").
\<close>

definition onlyTokenOwner :: "NFTMarketplace \<Rightarrow> address \<Rightarrow> uint256 \<Rightarrow> error option" where
  "onlyTokenOwner s sender tid =
     (case ownerOf s tid of
        Inl e \<Rightarrow> Some e
      | Inr a \<Rightarrow> if a = sender then None else Some NotTokenOwner)"

definition onlyApprovedNFT :: "NFTMarketplace \<Rightarrow> uint256 \<Rightarrow> error option" where
  "onlyApprovedNFT s tid = (if approvedNFTs s tid then None else Some NFTNotApproved)"

definition whenNotPaused :: "NFTMarketplace \<Rightarrow> error option" where
  "whenNotPaused s = (if paused s then Some EnforcedPause else None)"

definition onlyOwner :: "NFTMarketplace \<Rightarrow> address \<Rightarrow> error option" where
  "onlyOwner s sender = (if owner s = sender then None else Some OwnableUnauthorizedAccount)"

section \<open>Sequencing\<close>

text \<open>
  A call runs its modifiers, then its statements in order; the first failure aborts it
  and nothing of it persists (\<open>Inl\<close> carries no storage).
\<close>

definition withModifier :: "error option \<Rightarrow> error + 'a \<Rightarrow> error + 'a" where
  "withModifier g body = (case g of Some e \<Rightarrow> Inl e | None \<Rightarrow> body)"

definition andThen :: "error + 'a \<Rightarrow> ('a \<Rightarrow> error + 'b) \<Rightarrow> error + 'b" where
  "andThen x f = (case x of Inl e \<Rightarrow> Inl e | Inr a \<Rightarrow> f a)"

section \<open>Minting and approval\<close>

definition mintNFT ::
  "'w rail \<Rightarrow> NFTMarketplace \<Rightarrow> 'w \<Rightarrow> address \<Rightarrow> address \<Rightarrow> string \<Rightarrow> address \<Rightarrow> uint96
     \<Rightarrow> error + uint256 \<times> NFTMarketplace \<times> 'w" where
  "mintNFT r s w sender to uri royaltyRecipient royaltyFeeNumerator =
     (let tid = tokenIdCounter s;
          s1 = s\<lparr>tokenIdCounter := tokenIdCounter s + 1\<rparr>
      in if to = 0 then Inl ERC721InvalidReceiver
         else if owners s1 tid \<noteq> 0 then Inl ERC721InvalidSender
         else
           let s2 = s1\<lparr>owners := (owners s1)(tid := to)\<rparr> in
           andThen (requireCall (onERC721Received r s2 sender 0 to tid w) ERC721InvalidReceiver)
             (\<lambda>w'.
           let s3 = s2\<lparr>tokenURIs := (tokenURIs s2)(tid := uri)\<rparr> in
           andThen
             (if royaltyRecipient \<noteq> 0 \<and> royaltyFeeNumerator > 0
              then if royaltyFeeNumerator > 10000 then Inl ERC2981InvalidTokenRoyalty
                   else Inr (emit (RoyaltySet tid royaltyRecipient royaltyFeeNumerator)
                          (s3\<lparr>tokenRoyaltyInfo := (tokenRoyaltyInfo s3)
                             (tid := (royaltyRecipient, royaltyFeeNumerator))\<rparr>))
              else Inr s3)
             (\<lambda>s4. Inr (tid, emit (NFTMinted tid to uri) s4, w'))))"

definition approveNFT :: "NFTMarketplace \<Rightarrow> address \<Rightarrow> uint256 \<Rightarrow> bool \<Rightarrow> error + NFTMarketplace" where
  "approveNFT s sender tid approved =
     withModifier (onlyOwner s sender)
       (if owners s tid = 0 then Inl TokenDoesNotExist
        else Inr (emit (NFTApproved tid approved)
               (s\<lparr>approvedNFTs := (approvedNFTs s)(tid := approved)\<rparr>)))"

fun batchApproveLoop :: "NFTMarketplace \<Rightarrow> uint256 list \<Rightarrow> bool \<Rightarrow> error + NFTMarketplace" where
  "batchApproveLoop s [] approved = Inr s"
| "batchApproveLoop s (tid # tokenIds) approved =
     (if owners s tid = 0 then Inl TokenDoesNotExist
      else batchApproveLoop
             (emit (NFTApproved tid approved) (s\<lparr>approvedNFTs := (approvedNFTs s)(tid := approved)\<rparr>))
             tokenIds approved)"

definition batchApproveNFTs ::
  "NFTMarketplace \<Rightarrow> address \<Rightarrow> uint256 list \<Rightarrow> bool \<Rightarrow> error + NFTMarketplace" where
  "batchApproveNFTs s sender tokenIds approved =
     withModifier (onlyOwner s sender) (batchApproveLoop s tokenIds approved)"

section \<open>Fixed-price listings\<close>

definition listNFT ::
  "NFTMarketplace \<Rightarrow> uint256 \<Rightarrow> address \<Rightarrow> uint256 \<Rightarrow> uint256 \<Rightarrow> address \<Rightarrow> error + NFTMarketplace" where
  "listNFT s now sender tid amt tok =
     withModifier (onlyTokenOwner s sender tid)
    (withModifier (onlyApprovedNFT s tid)
    (withModifier (whenNotPaused s)
       (if \<not> amt > 0 then Inl PriceMustBePositive
        else if \<not> (tok = 0 \<or> tok = usdtToken s) then Inl InvalidPaymentToken
        else if Listing.active (listings s tid) then Inl AlreadyListed
        else if Auction.active (auctions s tid) then Inl TokenInAuction
        else Inr (emit (NFTListed tid sender amt tok)
               (s\<lparr>listings := (listings s)(tid :=
                    \<lparr>Listing.tokenId = tid, seller = sender, price = amt, paymentToken = tok,
                     active = True, createdAt = now\<rparr>)\<rparr>)))))"

text \<open>
  The block "Calculate fees" of \<open>buyNFT\<close> and \<open>endAuction\<close> (the same text in both):
  the marketplace fee, the royalty lookup and the seller's share, in this order as
  \<open>(marketplaceFeeAmount, royaltyRecipient, royaltyAmount, sellerAmount)\<close>.
\<close>

definition calculateFees ::
  "NFTMarketplace \<Rightarrow> uint256 \<Rightarrow> uint256 \<Rightarrow> error + uint256 \<times> address \<times> uint256 \<times> uint256" where
  "calculateFees s tid totalPrice =
     andThen (checked_mul totalPrice (marketplaceFee s)) (\<lambda>product.
     let marketplaceFeeAmount = product div 10000 in
     andThen (royaltyInfo s tid totalPrice) (\<lambda>(royaltyRecipient, royaltyAmount).
     andThen (checked_sub totalPrice marketplaceFeeAmount) (\<lambda>rest.
     andThen (checked_sub rest royaltyAmount) (\<lambda>sellerAmount.
       Inr (marketplaceFeeAmount, royaltyRecipient, royaltyAmount, sellerAmount)))))"

text \<open>
  The block "Transfer payments" in native currency (\<open>buyNFT\<close> and \<open>endAuction\<close>):
  royalty if any, then the seller, then the administrator.
\<close>

definition transferPayments ::
  "'w rail \<Rightarrow> NFTMarketplace \<Rightarrow> address \<Rightarrow> uint256 \<Rightarrow> address \<Rightarrow> uint256 \<Rightarrow> uint256 \<Rightarrow> 'w
     \<Rightarrow> error + 'w" where
  "transferPayments r m royaltyRecipient royaltyAmount sellr sellerAmount feeAmount w =
     andThen (if royaltyAmount > 0 \<and> royaltyRecipient \<noteq> 0
              then transfer r m royaltyRecipient royaltyAmount w else Inr w) (\<lambda>w1.
     andThen (transfer r m sellr sellerAmount w1) (\<lambda>w2.
       transfer r m (owner m) feeAmount w2))"

text \<open>The block "Transfer payments" of the ERC20 branch of \<open>buyNFT\<close>.\<close>

definition transferTokenPayments ::
  "'w rail \<Rightarrow> NFTMarketplace \<Rightarrow> address \<Rightarrow> address \<Rightarrow> uint256 \<Rightarrow> address \<Rightarrow> uint256 \<Rightarrow> uint256 \<Rightarrow> 'w
     \<Rightarrow> error + 'w" where
  "transferTokenPayments r m tok royaltyRecipient royaltyAmount sellr sellerAmount feeAmount w =
     andThen (if royaltyAmount > 0 \<and> royaltyRecipient \<noteq> 0
              then requireCall (erc20_transfer r m tok royaltyRecipient royaltyAmount w)
                     RoyaltyTransferFailed
              else Inr w) (\<lambda>w1.
     andThen (requireCall (erc20_transfer r m tok sellr sellerAmount w1) SellerTransferFailed)
       (\<lambda>w2.
       requireCall (erc20_transfer r m tok (owner m) feeAmount w2) FeeTransferFailed))"

definition buyNFT ::
  "'w rail \<Rightarrow> NFTMarketplace \<Rightarrow> 'w \<Rightarrow> address \<Rightarrow> uint256 \<Rightarrow> uint256 \<Rightarrow> error + NFTMarketplace \<times> 'w" where
  "buyNFT r s w sender val tid =
     withModifier (whenNotPaused s)
       (let listing = listings s tid in
        if \<not> Listing.active listing then Inl NotListedForSale
        else if \<not> Listing.seller listing \<noteq> sender then Inl CannotBuyOwnNFT
        else
          let totalPrice = Listing.price listing;
              sellr = Listing.seller listing;
              tok = Listing.paymentToken listing
          in
          andThen (calculateFees s tid totalPrice)
            (\<lambda>(marketplaceFeeAmount, royaltyRecipient, royaltyAmount, sellerAmount).
          andThen
            (if tok = 0
             then if \<not> val \<ge> totalPrice then Inl InsufficientETH
                  else andThen (transferPayments r s royaltyRecipient royaltyAmount sellr
                                  sellerAmount marketplaceFeeAmount w) (\<lambda>w1.
                         if val > totalPrice then transfer r s sender (val - totalPrice) w1
                         else Inr w1)
             else if \<not> val = 0 then Inl ETHNotAcceptedForERC20Payment
                  else andThen (requireCall
                                  (erc20_transferFrom r s tok sender (self s) totalPrice w)
                                  PaymentTransferFailed) (\<lambda>w1.
                         transferTokenPayments r s tok royaltyRecipient royaltyAmount sellr
                           sellerAmount marketplaceFeeAmount w1))
            (\<lambda>w'.
          andThen (transferNFT s sellr sender tid) (\<lambda>s1.
            Inr (emit (NFTSold tid sellr sender totalPrice tok)
                   (s1\<lparr>listings := (listings s1)(tid := deletedListing)\<rparr>), w')))))"

definition cancelListing :: "NFTMarketplace \<Rightarrow> address \<Rightarrow> uint256 \<Rightarrow> error + NFTMarketplace" where
  "cancelListing s sender tid =
     withModifier (onlyTokenOwner s sender tid)
       (if \<not> Listing.active (listings s tid) then Inl NotListed
        else Inr (emit (ListingCancelled tid sender)
               (s\<lparr>listings := (listings s)(tid := deletedListing)\<rparr>)))"

section \<open>Auctions\<close>

definition createAuction ::
  "NFTMarketplace \<Rightarrow> uint256 \<Rightarrow> address \<Rightarrow> uint256 \<Rightarrow> uint256 \<Rightarrow> uint256 \<Rightarrow> address
     \<Rightarrow> error + NFTMarketplace" where
  "createAuction s now sender tid amt duration tok =
     withModifier (onlyTokenOwner s sender tid)
    (withModifier (onlyApprovedNFT s tid)
    (withModifier (whenNotPaused s)
       (if \<not> amt > 0 then Inl StartingPriceMustBePositive
        else if \<not> (duration \<ge> 3600 \<and> duration \<le> 604800) then Inl InvalidDuration
        else if \<not> (tok = 0 \<or> tok = usdtToken s) then Inl InvalidPaymentToken
        else if Listing.active (listings s tid) then Inl TokenIsListed
        else if Auction.active (auctions s tid) then Inl AuctionAlreadyExists
        else andThen (checked_add now duration) (\<lambda>end.
               Inr (emit (AuctionCreated tid sender amt end tok)
                 (s\<lparr>auctions := (auctions s)(tid :=
                      \<lparr>Auction.tokenId = tid, seller = sender, startingPrice = amt,
                       currentBid = 0, currentBidder = 0, paymentToken = tok, endTime = end,
                       active = True, createdAt = now\<rparr>)\<rparr>))))))"

definition placeBid ::
  "NFTMarketplace \<Rightarrow> uint256 \<Rightarrow> address \<Rightarrow> uint256 \<Rightarrow> uint256 \<Rightarrow> error + NFTMarketplace" where
  "placeBid s now sender val tid =
     withModifier (whenNotPaused s)
       (let auction = auctions s tid in
        if \<not> Auction.active auction then Inl AuctionNotActive
        else if \<not> now < Auction.endTime auction then Inl AuctionEnded
        else if \<not> sender \<noteq> Auction.seller auction then Inl CannotBidOnOwnAuction
        else
          andThen
            (if Auction.paymentToken auction = 0
             then let bidAmount = val in
                  if \<not> bidAmount \<ge> startingPrice auction then Inl BidBelowStartingPrice
                  else if \<not> bidAmount > currentBid auction then Inl BidTooLow
                  else Inr bidAmount
             else if \<not> val = 0 then Inl ETHNotAcceptedForERC20Auction
                  else Inl ERC20AuctionsNotImplemented)
            (\<lambda>bidAmount.
          andThen
            (if currentBidder auction \<noteq> 0
             then andThen (checked_add (pendingWithdrawals s (currentBidder auction))
                             (currentBid auction)) (\<lambda>credited.
                    Inr (s\<lparr>pendingWithdrawals :=
                           (pendingWithdrawals s)(currentBidder auction := credited)\<rparr>))
             else Inr s)
            (\<lambda>s1.
            Inr (emit (BidPlaced tid sender bidAmount)
                   (s1\<lparr>auctions := (auctions s1)(tid :=
                        auction\<lparr>currentBid := bidAmount, currentBidder := sender\<rparr>)\<rparr>)))))"

text \<open>\<open>endAuction\<close> has no modifier but \<open>nonReentrant\<close> and never reads \<open>msg.sender\<close>.\<close>

definition endAuction ::
  "'w rail \<Rightarrow> NFTMarketplace \<Rightarrow> 'w \<Rightarrow> uint256 \<Rightarrow> address \<Rightarrow> uint256 \<Rightarrow> error + NFTMarketplace \<times> 'w" where
  "endAuction r s w now sender tid =
     (let auction = auctions s tid in
      if \<not> Auction.active auction then Inl AuctionNotActive
      else if \<not> now \<ge> Auction.endTime auction then Inl AuctionNotEnded
      else
        let s1 = s\<lparr>auctions := (auctions s)(tid := auction\<lparr>Auction.active := False\<rparr>)\<rparr> in
        andThen
          (if currentBidder auction \<noteq> 0
           then
             let totalPrice = currentBid auction;
                 sellr = Auction.seller auction;
                 winner = currentBidder auction
             in
             andThen (calculateFees s1 tid totalPrice)
               (\<lambda>(marketplaceFeeAmount, royaltyRecipient, royaltyAmount, sellerAmount).
             andThen (transferPayments r s1 royaltyRecipient royaltyAmount sellr sellerAmount
                        marketplaceFeeAmount w) (\<lambda>w1.
             andThen (transferNFT s1 sellr winner tid) (\<lambda>s2.
               Inr (emit (NFTSold tid sellr winner totalPrice (Auction.paymentToken auction))
                      (emit (AuctionEndedEvent tid winner totalPrice) s2), w1))))
           else Inr (emit (AuctionEndedEvent tid 0 0) s1, w))
          (\<lambda>(s3, w3). Inr (s3\<lparr>auctions := (auctions s3)(tid := deletedAuction)\<rparr>, w3)))"

section \<open>Withdrawals and administration\<close>

definition withdraw :: "'w rail \<Rightarrow> NFTMarketplace \<Rightarrow> 'w \<Rightarrow> address \<Rightarrow> error + NFTMarketplace \<times> 'w" where
  "withdraw r s w sender =
     (let amount = pendingWithdrawals s sender in
      if \<not> amount > 0 then Inl NoFundsToWithdraw
      else
        let s1 = s\<lparr>pendingWithdrawals := (pendingWithdrawals s)(sender := 0)\<rparr> in
        andThen (transfer r s1 sender amount w) (\<lambda>w'. Inr (s1, w')))"

definition setMarketplaceFee :: "NFTMarketplace \<Rightarrow> address \<Rightarrow> uint256 \<Rightarrow> error + NFTMarketplace" where
  "setMarketplaceFee s sender fee =
     withModifier (onlyOwner s sender)
       (if \<not> fee \<le> MAX_MARKETPLACE_FEE then Inl FeeTooHigh
        else Inr (emit (MarketplaceFeeUpdated fee) (s\<lparr>marketplaceFee := fee\<rparr>)))"

definition setUSDTToken :: "NFTMarketplace \<Rightarrow> address \<Rightarrow> address \<Rightarrow> error + NFTMarketplace" where
  "setUSDTToken s sender usdt =
     withModifier (onlyOwner s sender)
       (Inr (emit (USDTTokenUpdated usdt) (s\<lparr>usdtToken := usdt\<rparr>)))"

definition pause :: "NFTMarketplace \<Rightarrow> address \<Rightarrow> error + NFTMarketplace" where
  "pause s sender =
     withModifier (onlyOwner s sender)
       (if paused s then Inl EnforcedPause else Inr (s\<lparr>paused := True\<rparr>))"

definition unpause :: "NFTMarketplace \<Rightarrow> address \<Rightarrow> error + NFTMarketplace" where
  "unpause s sender =
     withModifier (onlyOwner s sender)
       (if \<not> paused s then Inl ExpectedPause else Inr (s\<lparr>paused := False\<rparr>))"

definition emergencyWithdraw ::
  "'w rail \<Rightarrow> NFTMarketplace \<Rightarrow> 'w \<Rightarrow> address \<Rightarrow> error + NFTMarketplace \<times> 'w" where
  "emergencyWithdraw r s w sender =
     withModifier (onlyOwner s sender)
       (andThen (transfer r s (owner s) (native_balance r w (self s)) w) (\<lambda>w'. Inr (s, w')))"

text \<open>The result of the token's \<open>transfer\<close> is not checked here, as in the source.\<close>

definition emergencyWithdrawToken ::
  "'w rail \<Rightarrow> NFTMarketplace \<Rightarrow> 'w \<Rightarrow> address \<Rightarrow> address \<Rightarrow> error + NFTMarketplace \<times> 'w" where
  "emergencyWithdrawToken r s w sender tok =
     withModifier (onlyOwner s sender)
       (case erc20_balanceOf r s tok (self s) w of
          None \<Rightarrow> Inl ExternalCallReverted
        | Some bal \<Rightarrow>
            (case erc20_transfer r s tok (owner s) bal w of
               None \<Rightarrow> Inl ExternalCallReverted
             | Some (ok, w') \<Rightarrow> Inr (s, w')))"

section \<open>Entry points and reachable states\<close>

datatype call =
    MintNFT address string address uint96
  | ApproveNFT uint256 bool
  | BatchApproveNFTs "uint256 list" bool
  | ListNFT uint256 uint256 address
  | BuyNFT uint256
  | CancelListing uint256
  | CreateAuction uint256 uint256 uint256 address
  | PlaceBid uint256
  | EndAuction uint256
  | Withdraw
  | SetMarketplaceFee uint256
  | SetUSDTToken address
  | Pause
  | Unpause
  | EmergencyWithdraw
  | EmergencyWithdrawToken address
  | TransferFrom address address uint256

text \<open>Only \<open>buyNFT\<close> and \<open>placeBid\<close> are \<open>payable\<close>; the others reject a call with value.\<close>

definition nonPayable :: "uint256 \<Rightarrow> error + 'a \<Rightarrow> error + 'a" where
  "nonPayable val body = (if val \<noteq> 0 then Inl NonPayable else body)"

text \<open>An operation that makes no external call leaves the world as it is.\<close>

definition internal :: "'w \<Rightarrow> error + NFTMarketplace \<Rightarrow> error + NFTMarketplace \<times> 'w" where
  "internal w res = andThen res (\<lambda>s'. Inr (s', w))"

fun dispatch ::
  "'w rail \<Rightarrow> NFTMarketplace \<Rightarrow> 'w \<Rightarrow> uint256 \<Rightarrow> address \<Rightarrow> uint256 \<Rightarrow> call
     \<Rightarrow> error + NFTMarketplace \<times> 'w" where
  "dispatch r s w now sender val (MintNFT to uri royaltyRecipient royaltyFeeNumerator) =
     nonPayable val
       (andThen (mintNFT r s w sender to uri royaltyRecipient royaltyFeeNumerator)
          (\<lambda>(tid, s', w'). Inr (s', w')))"
| "dispatch r s w now sender val (ApproveNFT tid approved) =
     nonPayable val (internal w (approveNFT s sender tid approved))"
| "dispatch r s w now sender val (BatchApproveNFTs tokenIds approved) =
     nonPayable val (internal w (batchApproveNFTs s sender tokenIds approved))"
| "dispatch r s w now sender val (ListNFT tid amt tok) =
     nonPayable val (internal w (listNFT s now sender tid amt tok))"
| "dispatch r s w now sender val (BuyNFT tid) = buyNFT r s w sender val tid"
| "dispatch r s w now sender val (CancelListing tid) =
     nonPayable val (internal w (cancelListing s sender tid))"
| "dispatch r s w now sender val (CreateAuction tid amt duration tok) =
     nonPayable val (internal w (createAuction s now sender tid amt duration tok))"
| "dispatch r s w now sender val (PlaceBid tid) = internal w (placeBid s now sender val tid)"
| "dispatch r s w now sender val (EndAuction tid) =
     nonPayable val (endAuction r s w now sender tid)"
| "dispatch r s w now sender val Withdraw = nonPayable val (withdraw r s w sender)"
| "dispatch r s w now sender val (SetMarketplaceFee fee) =
     nonPayable val (internal w (setMarketplaceFee s sender fee))"
| "dispatch r s w now sender val (SetUSDTToken usdt) =
     nonPayable val (internal w (setUSDTToken s sender usdt))"
| "dispatch r s w now sender val Pause = nonPayable val (internal w (pause s sender))"
| "dispatch r s w now sender val Unpause = nonPayable val (internal w (unpause s sender))"
| "dispatch r s w now sender val EmergencyWithdraw =
     nonPayable val (emergencyWithdraw r s w sender)"
| "dispatch r s w now sender val (EmergencyWithdrawToken tok) =
     nonPayable val (emergencyWithdrawToken r s w sender tok)"
| "dispatch r s w now sender val (TransferFrom from to tid) =
     nonPayable val (internal w (transferFrom s sender from to tid))"

text \<open>
  The states the ledger can be in: the state after deployment, and every state a
  successful call leads to. A failed call persists nothing, so it adds no state. The
  last three rules cover what happens outside the contract's own functions: the entry
  points it inherits from the ownership registry hand an existing item to another
  account (the item is never held in escrow), those it inherits from the access control
  replace the administrator, and the world changes on its own.
\<close>

inductive reachable :: "'w rail \<Rightarrow> NFTMarketplace \<times> 'w \<Rightarrow> bool" for r :: "'w rail" where
  deployed: "reachable r (constructor this deployer usdt, w)"
| called: "reachable r (s, w) \<Longrightarrow> dispatch r s w now sender val c = Inr (s', w')
     \<Longrightarrow> reachable r (s', w')"
| item_transferred: "reachable r (s, w) \<Longrightarrow> owners s tid \<noteq> 0 \<Longrightarrow> to \<noteq> 0
     \<Longrightarrow> reachable r (s\<lparr>owners := (owners s)(tid := to)\<rparr>, w')"
| administrator_replaced: "reachable r (s, w) \<Longrightarrow> reachable r (s\<lparr>owner := a\<rparr>, w)"
| world_changed: "reachable r (s, w) \<Longrightarrow> reachable r (s, w')"

text \<open>What persists after a call: its result, or what was there before when it failed.\<close>

definition persisted :: "'a \<Rightarrow> error + 'a \<Rightarrow> 'a" where
  "persisted before res = (case res of Inl e \<Rightarrow> before | Inr after \<Rightarrow> after)"

text \<open>
  A script of transactions \<open>(now, sender, val, call)\<close>, run in order; a failed one
  leaves everything as it was.
\<close>

type_synonym tx = "uint256 \<times> address \<times> uint256 \<times> call"

fun run :: "'w rail \<Rightarrow> tx list \<Rightarrow> NFTMarketplace \<times> 'w \<Rightarrow> NFTMarketplace \<times> 'w" where
  "run r [] sw = sw"
| "run r ((now, sender, val, c) # txs) (s, w) =
     run r txs (persisted (s, w) (dispatch r s w now sender val c))"

section \<open>A journalling rail\<close>

text \<open>
  The rail that accepts every call and records it, together with the ledger's storage at
  the moment of the call. It makes the external calls of an operation, their order and
  what the callee could see, observable.
\<close>

datatype extcall =
    NativeSend address uint256
  | Erc20TransferFrom address address address uint256
  | Erc20Transfer address address uint256
  | Erc721Received address address address uint256

type_synonym journal = "(NFTMarketplace \<times> extcall) list"

definition journalling :: "journal rail" where
  "journalling =
     \<lparr>pay = (\<lambda>m to amount j. Some (j @ [(m, NativeSend to amount)])),
      erc20_transferFrom = (\<lambda>m tok from to amount j.
        Some (True, j @ [(m, Erc20TransferFrom tok from to amount)])),
      erc20_transfer = (\<lambda>m tok to amount j. Some (True, j @ [(m, Erc20Transfer tok to amount)])),
      erc20_balanceOf = (\<lambda>m tok holder j. Some 0),
      native_balance = (\<lambda>j a. 0),
      onERC721Received = (\<lambda>m operator from to tid j.
        Some (True, j @ [(m, Erc721Received operator from to tid)]))\<rparr>"

text \<open>The currency an external call moves: \<open>0\<close> for native currency, else the token.\<close>

fun currency :: "extcall \<Rightarrow> address" where
  "currency (NativeSend to amount) = 0"
| "currency (Erc20TransferFrom tok from to amount) = tok"
| "currency (Erc20Transfer tok to amount) = tok"
| "currency (Erc721Received operator from to tid) = 0"

text \<open>The rail with no world that accepts every call.\<close>

definition accepting :: "unit rail" where
  "accepting =
     \<lparr>pay = (\<lambda>m to amount u. Some ()),
      erc20_transferFrom = (\<lambda>m tok from to amount u. Some (True, ())),
      erc20_transfer = (\<lambda>m tok to amount u. Some (True, ())),
      erc20_balanceOf = (\<lambda>m tok holder u. Some 0),
      native_balance = (\<lambda>u a. 0),
      onERC721Received = (\<lambda>m operator from to tid u. Some (True, ()))\<rparr>"

text \<open>
  A rail made stricter: its payout fails when it is invoked while the ledger still
  records a nonzero pending balance for the payee.
\<close>

definition payOnlyWhenCleared :: "'w rail \<Rightarrow> 'w rail" where
  "payOnlyWhenCleared r =
     r\<lparr>pay := (\<lambda>m to amount w.
          if pendingWithdrawals m to = 0 then pay r m to amount w else None)\<rparr>"

text \<open>A rail whose payout does not consult the ledger's pause flag.\<close>

definition pauseBlind :: "'w rail \<Rightarrow> bool" where
  "pauseBlind r \<longleftrightarrow> (\<forall>m b to amount w. pay r (m\<lparr>paused := b\<rparr>) to amount w = pay r m to amount w)"

section \<open>Example states\<close>

text \<open>
  A deployment at address 100 by the administrator 1, with token 9 as the accepted
  payment token. Account 2 mints item 0 with a royalty of 500 bps for account 7 and the
  administrator approves it. The scripts below continue from there; each state is what
  the script leaves behind.
\<close>

definition deployment :: "NFTMarketplace \<times> unit" where
  "deployment = (constructor 100 1 9, ())"

definition approvalScript :: "tx list" where
  "approvalScript = [(1, 2, 0, MintNFT 2 [] 7 500), (2, 1, 0, ApproveNFT 0 True)]"

definition approvedState :: NFTMarketplace where
  "approvedState = fst (run accepting approvalScript deployment)"

text \<open>Account 2 lists item 0 for 1000 in native currency.\<close>

definition saleScript :: "tx list" where
  "saleScript = approvalScript @ [(5, 2, 0, ListNFT 0 1000 0)]"

definition listedState :: NFTMarketplace where
  "listedState = fst (run accepting saleScript deployment)"

text \<open>... and then hands the item to account 4 while the listing stands.\<close>

definition movedScript :: "tx list" where
  "movedScript = saleScript @ [(6, 2, 0, TransferFrom 2 4 0)]"

definition movedListingState :: NFTMarketplace where
  "movedListingState = fst (run accepting movedScript deployment)"

text \<open>Account 2 lists item 0 for 1000 units of token 9.\<close>

definition tokenSaleScript :: "tx list" where
  "tokenSaleScript = approvalScript @ [(5, 2, 0, ListNFT 0 1000 9)]"

definition tokenListedState :: NFTMarketplace where
  "tokenListedState = fst (run accepting tokenSaleScript deployment)"

text \<open>... and the administrator then makes token 8 the accepted payment token.\<close>

definition retokenedScript :: "tx list" where
  "retokenedScript = tokenSaleScript @ [(6, 1, 0, SetUSDTToken 8)]"

definition retokenedState :: NFTMarketplace where
  "retokenedState = fst (run accepting retokenedScript deployment)"

text \<open>
  Account 2 opens a native-currency auction of item 0 at time 10 for one hour, starting
  price 500; account 3 bids 600 at time 20; account 4 bids 700 at time 30.
\<close>

definition auctionScript :: "tx list" where
  "auctionScript = approvalScript @ [(10, 2, 0, CreateAuction 0 500 3600 0)]"

definition auctionState :: NFTMarketplace where
  "auctionState = fst (run accepting auctionScript deployment)"

definition bidScript :: "tx list" where
  "bidScript = auctionScript @ [(20, 3, 600, PlaceBid 0)]"

definition bidState :: NFTMarketplace where
  "bidState = fst (run accepting bidScript deployment)"

definition outbidScript :: "tx list" where
  "outbidScript = bidScript @ [(30, 4, 700, PlaceBid 0)]"

definition outbidState :: NFTMarketplace where
  "outbidState = fst (run accepting outbidScript deployment)"

text \<open>After the bid of account 3, the seller hands the item to account 4.\<close>

definition movedAuctionScript :: "tx list" where
  "movedAuctionScript = bidScript @ [(25, 2, 0, TransferFrom 2 4 0)]"

definition movedAuctionState :: NFTMarketplace where
  "movedAuctionState = fst (run accepting movedAuctionScript deployment)"

text \<open>The administrator pauses the marketplace while the auction runs.\<close>

definition pausedAuctionScript :: "tx list" where
  "pausedAuctionScript = auctionScript @ [(15, 1, 0, Pause)]"

definition pausedAuctionState :: NFTMarketplace where
  "pausedAuctionState = fst (run accepting pausedAuctionScript deployment)"

text \<open>The same auction, denominated in token 9.\<close>

definition tokenAuctionScript :: "tx list" where
  "tokenAuctionScript = approvalScript @ [(10, 2, 0, CreateAuction 0 500 3600 9)]"

definition tokenAuctionState :: NFTMarketplace where
  "tokenAuctionState = fst (run accepting tokenAuctionScript deployment)"

text \<open>
  An item minted with a royalty of 10000 bps (the whole price), approved, auctioned, and
  bid on with 1000 by account 3.
\<close>

definition fullRoyaltyScript :: "tx list" where
  "fullRoyaltyScript =
     [(1, 2, 0, MintNFT 2 [] 7 10000), (2, 1, 0, ApproveNFT 0 True),
      (10, 2, 0, CreateAuction 0 500 3600 0), (20, 3, 1000, PlaceBid 0)]"

definition fullRoyaltyState :: NFTMarketplace where
  "fullRoyaltyState = fst (run accepting fullRoyaltyScript deployment)"

section \<open>Mutual exclusion, as a predicate on states\<close>

definition exclusive :: "NFTMarketplace \<Rightarrow> bool" where
  "exclusive s \<longleftrightarrow>
     (\<forall>tid. \<not> (Listing.active (listings s tid) \<and> Auction.active (auctions s tid)))"

section \<open>Basic facts\<close>

lemmas ledger_defs =
  withModifier_def andThen_def onlyTokenOwner_def onlyApprovedNFT_def whenNotPaused_def
  onlyOwner_def ownerOf_def transferNFT_def transferFrom_def royaltyInfo_def checked_add_def
  checked_sub_def checked_mul_def transfer_def requireCall_def emit_def nonPayable_def
  internal_def persisted_def Let_def

lemmas entry_defs =
  mintNFT_def approveNFT_def batchApproveNFTs_def listNFT_def calculateFees_def
  transferPayments_def transferTokenPayments_def buyNFT_def cancelListing_def
  createAuction_def placeBid_def endAuction_def withdraw_def setMarketplaceFee_def
  setUSDTToken_def pause_def unpause_def emergencyWithdraw_def emergencyWithdrawToken_def
  MAX_MARKETPLACE_FEE_def deletedListing_def deletedAuction_def

lemmas script_defs =
  deployment_def constructor_def accepting_def journalling_def approvalScript_def
  approvedState_def saleScript_def listedState_def movedScript_def movedListingState_def
  tokenSaleScript_def tokenListedState_def retokenedScript_def retokenedState_def
  auctionScript_def auctionState_def bidScript_def
  bidState_def outbidScript_def outbidState_def movedAuctionScript_def movedAuctionState_def
  pausedAuctionScript_def
  pausedAuctionState_def tokenAuctionScript_def tokenAuctionState_def fullRoyaltyScript_def
  fullRoyaltyState_def

lemma checked_mul_Inr:
  "checked_mul a b = Inr c \<Longrightarrow> c = a * b \<and> unat c = unat a * unat b"
  by (auto simp: checked_mul_def unat_mult_lem [where 'a=256, simplified] split: if_splits)

lemma checked_sub_Inr:
  "checked_sub a b = Inr c \<Longrightarrow> c = a - b \<and> unat c = unat a - unat b \<and> unat b \<le> unat a"
  by (auto simp: checked_sub_def unat_sub word_le_nat_alt split: if_splits)

lemma checked_add_Inr:
  "checked_add a b = Inr c \<Longrightarrow> c = a + b \<and> unat c = unat a + unat b"
  by (auto simp: checked_add_def unat_add_lem [where 'a=256, simplified] split: if_splits)

lemma uint_of_unat_div:
  fixes a b c :: uint256
  assumes "unat a = unat b * unat c div 10000"
  shows "uint a = uint b * uint c div 10000"
proof -
  have "int (unat a) = int (unat b) * int (unat c) div 10000"
    by (simp only: assms zdiv_int of_nat_mult of_nat_numeral)
  then show ?thesis by (simp only: uint_nat)
qed

lemma uint_of_unat_sum3:
  fixes a b c d :: uint256
  assumes "unat a + unat b + unat c = unat d"
  shows "uint a + uint b + uint c = uint d"
proof -
  have "int (unat a) + int (unat b) + int (unat c) = int (unat d)"
    by (simp only: assms [symmetric] of_nat_add)
  then show ?thesis by (simp only: uint_nat)
qed

lemma uint_of_unat_sum2:
  fixes a b c :: uint256
  assumes "unat a = unat b + unat c"
  shows "uint a = uint b + uint c"
proof -
  have "int (unat a) = int (unat b) + int (unat c)"
    by (simp only: assms of_nat_add)
  then show ?thesis by (simp only: uint_nat)
qed

lemma andThen_Inr: "andThen x f = Inr y \<longleftrightarrow> (\<exists>a. x = Inr a \<and> f a = Inr y)"
  by (cases x) (simp_all add: andThen_def)

lemma withModifier_Inr: "withModifier g b = Inr y \<longleftrightarrow> g = None \<and> b = Inr y"
  by (cases g) (simp_all add: withModifier_def)

lemma listedState_eq:
  "listedState =
     \<lparr>self = 100, owner = 1, paused = False, owners = (\<lambda>_. 0)(0 := 2),
      tokenURIs = (\<lambda>_. [])(0 := []), tokenRoyaltyInfo = (\<lambda>_. (0, 0))(0 := (7, 500)),
      tokenIdCounter = 1, marketplaceFee = 250, usdtToken = 9,
      listings = (\<lambda>_. deletedListing)(0 :=
        \<lparr>Listing.tokenId = 0, seller = 2, price = 1000, paymentToken = 0, active = True,
         createdAt = 5\<rparr>),
      auctions = (\<lambda>_. deletedAuction), pendingWithdrawals = (\<lambda>_. 0),
      approvedNFTs = (\<lambda>_. False)(0 := True),
      events = [RoyaltySet 0 7 500, NFTMinted 0 2 [], NFTApproved 0 True, NFTListed 0 2 1000 0]\<rparr>"
  by (simp add: script_defs ledger_defs entry_defs)

section \<open>What a successful call does\<close>

lemma transferNFT_Inr:
  "transferNFT s from to tid = Inr s' \<longleftrightarrow>
     to \<noteq> 0 \<and> owners s tid \<noteq> 0 \<and> owners s tid = from
     \<and> s' = s\<lparr>owners := (owners s)(tid := to)\<rparr>"
  by (auto simp: transferNFT_def)

lemma mintNFT_records:
  "mintNFT r s w sender to uri rr rf = Inr (tid, s', w') \<Longrightarrow>
     listings s' = listings s \<and> auctions s' = auctions s"
  by (auto simp: mintNFT_def andThen_Inr Let_def emit_def split: if_splits)

lemma approveNFT_records:
  "approveNFT s sender tid b = Inr s' \<Longrightarrow>
     listings s' = listings s \<and> auctions s' = auctions s"
  by (auto simp: approveNFT_def withModifier_Inr emit_def split: if_splits)

lemma batchApproveLoop_records:
  "batchApproveLoop s ids b = Inr s' \<Longrightarrow>
     listings s' = listings s \<and> auctions s' = auctions s"
  by (induction s ids b rule: batchApproveLoop.induct) (auto simp: emit_def split: if_splits)

lemma batchApproveNFTs_records:
  "batchApproveNFTs s sender ids b = Inr s' \<Longrightarrow>
     listings s' = listings s \<and> auctions s' = auctions s"
  by (auto simp: batchApproveNFTs_def withModifier_Inr dest: batchApproveLoop_records)

lemma listNFT_Inr:
  "listNFT s now sender tid amt tok = Inr s' \<Longrightarrow>
     s' = emit (NFTListed tid sender amt tok)
            (s\<lparr>listings := (listings s)(tid :=
                 \<lparr>Listing.tokenId = tid, seller = sender, price = amt, paymentToken = tok,
                  active = True, createdAt = now\<rparr>)\<rparr>)
     \<and> owners s tid = sender \<and> sender \<noteq> 0 \<and> approvedNFTs s tid \<and> \<not> paused s
     \<and> \<not> Listing.active (listings s tid) \<and> \<not> Auction.active (auctions s tid)"
  by (auto simp: listNFT_def withModifier_Inr onlyTokenOwner_def ownerOf_def onlyApprovedNFT_def
      whenNotPaused_def split: if_splits)

lemma buyNFT_Inr:
  "buyNFT r s w sender val tid = Inr (s', w') \<Longrightarrow>
     s' = emit (NFTSold tid (Listing.seller (listings s tid)) sender
              (Listing.price (listings s tid)) (Listing.paymentToken (listings s tid)))
            (s\<lparr>owners := (owners s)(tid := sender),
               listings := (listings s)(tid := deletedListing)\<rparr>)
     \<and> \<not> paused s \<and> Listing.active (listings s tid)
     \<and> Listing.seller (listings s tid) \<noteq> sender
     \<and> owners s tid = Listing.seller (listings s tid)"
  by (auto simp: buyNFT_def withModifier_Inr andThen_Inr whenNotPaused_def Let_def transferNFT_Inr
      split: if_splits)

lemma cancelListing_Inr:
  "cancelListing s sender tid = Inr s' \<Longrightarrow>
     s' = emit (ListingCancelled tid sender)
            (s\<lparr>listings := (listings s)(tid := deletedListing)\<rparr>)
     \<and> owners s tid = sender \<and> sender \<noteq> 0 \<and> Listing.active (listings s tid)"
  by (auto simp: cancelListing_def withModifier_Inr onlyTokenOwner_def ownerOf_def split: if_splits)

lemma createAuction_Inr:
  "createAuction s now sender tid amt duration tok = Inr s' \<Longrightarrow>
     (\<exists>end. checked_add now duration = Inr end \<and>
        s' = emit (AuctionCreated tid sender amt end tok)
               (s\<lparr>auctions := (auctions s)(tid :=
                    \<lparr>Auction.tokenId = tid, seller = sender, startingPrice = amt,
                     currentBid = 0, currentBidder = 0, paymentToken = tok, endTime = end,
                     active = True, createdAt = now\<rparr>)\<rparr>))
     \<and> owners s tid = sender \<and> sender \<noteq> 0 \<and> approvedNFTs s tid \<and> \<not> paused s
     \<and> \<not> Listing.active (listings s tid) \<and> \<not> Auction.active (auctions s tid)"
  by (auto simp: createAuction_def withModifier_Inr andThen_Inr onlyTokenOwner_def ownerOf_def
      onlyApprovedNFT_def whenNotPaused_def split: if_splits)

lemma placeBid_Inr:
  "placeBid s now sender val tid = Inr s' \<Longrightarrow>
     listings s' = listings s
     \<and> auctions s' = (auctions s)(tid :=
          (auctions s tid)\<lparr>currentBid := val, currentBidder := sender\<rparr>)
     \<and> owners s' = owners s
     \<and> Auction.active (auctions s tid) \<and> \<not> paused s
     \<and> Auction.paymentToken (auctions s tid) = 0"
  by (auto simp: placeBid_def withModifier_Inr andThen_Inr whenNotPaused_def Let_def emit_def
      split: if_splits)

lemma endAuction_Inr:
  "endAuction r s w now sender tid = Inr (s', w') \<Longrightarrow>
     listings s' = listings s
     \<and> auctions s' = (auctions s)(tid := deletedAuction)
     \<and> pendingWithdrawals s' = pendingWithdrawals s
     \<and> paused s' = paused s
     \<and> Auction.active (auctions s tid) \<and> Auction.endTime (auctions s tid) \<le> now"
  by (auto simp: endAuction_def andThen_Inr Let_def emit_def transferNFT_Inr split: if_splits)

lemma withdraw_Inr:
  "withdraw r s w sender = Inr (s', w') \<Longrightarrow>
     s' = s\<lparr>pendingWithdrawals := (pendingWithdrawals s)(sender := 0)\<rparr>
     \<and> pendingWithdrawals s sender \<noteq> 0"
  by (auto simp: withdraw_def andThen_Inr Let_def word_greater_zero_iff split: if_splits)

lemma setMarketplaceFee_Inr:
  "setMarketplaceFee s sender fee = Inr s' \<Longrightarrow>
     s' = emit (MarketplaceFeeUpdated fee) (s\<lparr>marketplaceFee := fee\<rparr>) \<and> owner s = sender
     \<and> fee \<le> MAX_MARKETPLACE_FEE"
  by (auto simp: setMarketplaceFee_def withModifier_Inr onlyOwner_def split: if_splits)

lemma setUSDTToken_Inr:
  "setUSDTToken s sender usdt = Inr s' \<Longrightarrow>
     s' = emit (USDTTokenUpdated usdt) (s\<lparr>usdtToken := usdt\<rparr>) \<and> owner s = sender"
  by (auto simp: setUSDTToken_def withModifier_Inr onlyOwner_def split: if_splits)

lemma pause_Inr: "pause s sender = Inr s' \<Longrightarrow> s' = s\<lparr>paused := True\<rparr> \<and> owner s = sender"
  by (auto simp: pause_def withModifier_Inr onlyOwner_def split: if_splits)

lemma unpause_Inr:
  "unpause s sender = Inr s' \<Longrightarrow> s' = s\<lparr>paused := False\<rparr> \<and> owner s = sender"
  by (auto simp: unpause_def withModifier_Inr onlyOwner_def split: if_splits)

lemma emergencyWithdraw_Inr: "emergencyWithdraw r s w sender = Inr (s', w') \<Longrightarrow> s' = s"
  by (auto simp: emergencyWithdraw_def withModifier_Inr andThen_Inr)

lemma emergencyWithdrawToken_Inr:
  "emergencyWithdrawToken r s w sender tok = Inr (s', w') \<Longrightarrow> s' = s"
  by (auto simp: emergencyWithdrawToken_def withModifier_Inr split: option.splits)

lemma transferFrom_Inr:
  "transferFrom s sender from to tid = Inr s' \<Longrightarrow>
     s' = s\<lparr>owners := (owners s)(tid := to)\<rparr> \<and> owners s tid = sender \<and> to \<noteq> 0"
  by (auto simp: transferFrom_def split: if_splits)

lemma nonPayable_Inr: "nonPayable val b = Inr y \<longleftrightarrow> val = 0 \<and> b = Inr y"
  by (simp add: nonPayable_def)

lemma internal_Inr: "internal w res = Inr (s', w') \<longleftrightarrow> res = Inr s' \<and> w' = w"
  by (cases res) (auto simp: internal_def andThen_def)

lemmas dispatch_Inr = nonPayable_Inr internal_Inr andThen_Inr

lemmas effects =
  mintNFT_records approveNFT_records batchApproveNFTs_records listNFT_Inr buyNFT_Inr
  cancelListing_Inr createAuction_Inr placeBid_Inr endAuction_Inr withdraw_Inr
  setMarketplaceFee_Inr setUSDTToken_Inr pause_Inr unpause_Inr emergencyWithdraw_Inr
  emergencyWithdrawToken_Inr transferFrom_Inr

section \<open>Mutual exclusion of listing and auction\<close>

lemma dispatch_listing_activated:
  assumes "dispatch r s w now sender val c = Inr (s', w')"
    and "Listing.active (listings s' tid)" and "\<not> Listing.active (listings s tid)"
  shows "\<exists>amt tok. c = ListNFT tid amt tok"
  using assms
  by (cases c)
     (auto simp: dispatch_Inr emit_def deletedListing_def split: if_splits dest!: effects)

lemma dispatch_auction_activated:
  assumes "dispatch r s w now sender val c = Inr (s', w')"
    and "Auction.active (auctions s' tid)" and "\<not> Auction.active (auctions s tid)"
  shows "\<exists>amt duration tok. c = CreateAuction tid amt duration tok"
  using assms
  by (cases c)
     (auto simp: dispatch_Inr emit_def deletedAuction_def split: if_splits dest!: effects)


lemma dispatch_exclusive:
  assumes "dispatch r s w now sender val c = Inr (s', w')" and "exclusive s"
  shows "exclusive s'"
  using assms
  by (cases c)
     (auto simp: dispatch_Inr exclusive_def emit_def deletedListing_def deletedAuction_def
        split: if_splits dest!: effects)

lemma reachable_exclusive: "reachable r sw \<Longrightarrow> exclusive (fst sw)"
proof (induction rule: reachable.induct)
  case (deployed this deployer usdt w)
  then show ?case by (simp add: exclusive_def constructor_def deletedListing_def)
next
  case (called s w now sender val c s' w')
  then show ?case using dispatch_exclusive by fastforce
qed (simp_all add: exclusive_def)

lemma reachable_run: "reachable r sw \<Longrightarrow> reachable r (run r txs sw)"
proof (induction txs arbitrary: sw)
  case Nil
  then show ?case by simp
next
  case (Cons t txs)
  obtain now sender val c where t: "t = (now, sender, val, c)" by (cases t) auto
  obtain s w where sw: "sw = (s, w)" by (cases sw) auto
  show ?case
  proof (cases "dispatch r s w now sender val c")
    case (Inl e)
    then show ?thesis using Cons by (simp add: t sw persisted_def)
  next
    case (Inr p)
    then have "reachable r p"
      using Cons.prems reachable.called [of r s w now sender val c "fst p" "snd p"]
      by (simp add: sw)
    then show ?thesis using Cons.IH Inr by (simp add: t sw persisted_def)
  qed
qed

section \<open>The split of a sale\<close>

lemma calculateFees_Inr:
  assumes "calculateFees s tid p = Inr (fee, rr, ra, sa)"
  shows "unat fee = unat p * unat (marketplaceFee s) div 10000"
    and "royaltyInfo s tid p = Inr (rr, ra)"
    and "unat sa + unat fee + unat ra = unat p"
  using assms
  by (auto simp: calculateFees_def andThen_Inr Let_def unat_div
      dest!: checked_mul_Inr checked_sub_Inr)

lemma calculateFees_auctions_update [simp]:
  "calculateFees (s\<lparr>auctions := a\<rparr>) tid p = calculateFees s tid p"
  by (simp add: calculateFees_def royaltyInfo_def)

lemma buyNFT_calculateFees:
  assumes "buyNFT r s w sender val tid = Inr (s', w')"
  shows "\<exists>fee rr ra sa.
           calculateFees s tid (Listing.price (listings s tid)) = Inr (fee, rr, ra, sa)"
  using assms
  by (auto simp: buyNFT_def withModifier_Inr andThen_Inr Let_def split: if_splits)

lemma endAuction_calculateFees:
  assumes "endAuction r s w now sender tid = Inr (s', w')"
    and "currentBidder (auctions s tid) \<noteq> 0"
  shows "\<exists>fee rr ra sa.
           calculateFees s tid (currentBid (auctions s tid)) = Inr (fee, rr, ra, sa)"
  using assms
  by (auto simp: endAuction_def andThen_Inr Let_def split: if_splits)

text \<open>
  C1. Whenever a fixed-price purchase succeeds (at the listing's price \<open>p\<close>), or an
  auction with a winning bidder is ended successfully (at the winning bid \<open>p\<close>), the
  amounts the code computes and pays out are: the fee \<open>p * marketplaceFee / 10000\<close>
  rounded down, the royalty amount returned by the royalty lookup for the item and
  \<open>p\<close>, and the seller amount \<open>p - fee - royalty\<close>. The three add up to \<open>p\<close> exactly
  and none is negative.
\<close>

theorem sale_split_exact:
  assumes "buyNFT r s w sender val tid = Inr (s', w') \<and> p = Listing.price (listings s tid)
         \<or> endAuction r s w now sender tid = Inr (s', w')
             \<and> currentBidder (auctions s tid) \<noteq> 0 \<and> p = currentBid (auctions s tid)"
  shows "\<exists>fee royaltyRecipient royaltyAmount sellerAmount.
           calculateFees s tid p = Inr (fee, royaltyRecipient, royaltyAmount, sellerAmount)
         \<and> uint fee = uint p * uint (marketplaceFee s) div 10000
         \<and> royaltyInfo s tid p = Inr (royaltyRecipient, royaltyAmount)
         \<and> uint sellerAmount = uint p - uint fee - uint royaltyAmount
         \<and> uint sellerAmount + uint fee + uint royaltyAmount = uint p
         \<and> 0 \<le> uint sellerAmount \<and> 0 \<le> uint fee \<and> 0 \<le> uint royaltyAmount"
proof -
  have "\<exists>fee rr ra sa. calculateFees s tid p = Inr (fee, rr, ra, sa)"
    using assms
  proof (elim disjE conjE)
    assume "buyNFT r s w sender val tid = Inr (s', w')" and "p = Listing.price (listings s tid)"
    then show ?thesis using buyNFT_calculateFees [of r s w sender val tid s' w'] by simp
  next
    assume "endAuction r s w now sender tid = Inr (s', w')"
      and "currentBidder (auctions s tid) \<noteq> 0" and "p = currentBid (auctions s tid)"
    then show ?thesis using endAuction_calculateFees [of r s w now sender tid s' w'] by simp
  qed
  then obtain fee rr ra sa where c: "calculateFees s tid p = Inr (fee, rr, ra, sa)"
    by blast
  note f = calculateFees_Inr [OF c]
  have fee: "uint fee = uint p * uint (marketplaceFee s) div 10000"
    using f(1) by (rule uint_of_unat_div)
  have total: "uint sa + uint fee + uint ra = uint p"
    using f(3) by (rule uint_of_unat_sum3)
  show ?thesis
  proof (intro exI conjI)
    show "calculateFees s tid p = Inr (fee, rr, ra, sa)" by (rule c)
    show "uint fee = uint p * uint (marketplaceFee s) div 10000" by (rule fee)
    show "royaltyInfo s tid p = Inr (rr, ra)" by (rule f(2))
    show "uint sa = uint p - uint fee - uint ra" using total by arith
    show "uint sa + uint fee + uint ra = uint p" by (rule total)
  qed simp_all
qed

lemma listedState_fees: "calculateFees listedState 0 1000 = Inr (25, 7, 50, 925)"
  by (simp add: listedState_eq calculateFees_def ledger_defs)

lemma listedState_buy:
  "buyNFT journalling listedState [] 3 1000 0 =
     Inr (emit (NFTSold 0 2 3 1000 0)
            (listedState\<lparr>owners := (owners listedState)(0 := 3),
               listings := (listings listedState)(0 := deletedListing)\<rparr>),
          [(listedState, NativeSend 7 50), (listedState, NativeSend 2 925),
           (listedState, NativeSend 1 25)])"
  by (simp add: buyNFT_def calculateFees_def transferPayments_def listedState_eq script_defs
      ledger_defs)

theorem sale_split_exact_witness:
  "(\<exists>s' w'. buyNFT journalling listedState [] 3 1000 0 = Inr (s', w'))
   \<and> Listing.price (listings listedState 0) = 1000
   \<and> calculateFees listedState 0 1000 = Inr (25, 7, 50, 925)
   \<and> uint (925 :: uint256) + uint (25 :: uint256) + uint (50 :: uint256) = uint (1000 :: uint256)"
proof -
  have p: "Listing.price (listings listedState 0) = 1000"
    by (simp add: listedState_eq)
  obtain s' w' where b: "buyNFT journalling listedState [] 3 1000 0 = Inr (s', w')"
    using listedState_buy by blast
  from sale_split_exact [of journalling listedState "[]" 3 1000 0 s' w' 1000] b p
  show ?thesis
    by (auto simp: listedState_fees)
qed

text \<open>
  What is paid out, read off the journalling rail: the royalty (when it is positive and
  has a recipient), the seller amount and the fee are the values of the split, paid in
  this order, followed in a native purchase by the refund of what was tendered above
  the price.
\<close>

lemma transferPayments_journalled:
  "transferPayments journalling m rr ra sl sa fee j =
     Inr (j @ (if ra > 0 \<and> rr \<noteq> 0 then [(m, NativeSend rr ra)] else [])
            @ [(m, NativeSend sl sa), (m, NativeSend (owner m) fee)])"
  by (simp add: transferPayments_def andThen_def transfer_def journalling_def)

lemma buyNFT_native_journalled:
  assumes "buyNFT journalling s j sender val tid = Inr (s', j')"
    and "Listing.paymentToken (listings s tid) = 0"
    and "calculateFees s tid (Listing.price (listings s tid)) = Inr (fee, rr, ra, sa)"
  shows "j' = j @ (if ra > 0 \<and> rr \<noteq> 0 then [(s, NativeSend rr ra)] else [])
              @ [(s, NativeSend (Listing.seller (listings s tid)) sa),
                 (s, NativeSend (owner s) fee)]
              @ (if val > Listing.price (listings s tid)
                 then [(s, NativeSend sender (val - Listing.price (listings s tid)))] else [])"
proof -
  from assms obtain j1 where
    t: "transferPayments journalling s rr ra (Listing.seller (listings s tid)) sa fee j = Inr j1"
    and r: "(if val > Listing.price (listings s tid)
             then transfer journalling s sender (val - Listing.price (listings s tid)) j1
             else Inr j1) = Inr j'"
    by (auto simp: buyNFT_def withModifier_Inr andThen_Inr Let_def split: if_splits)
  from t have "j1 = j @ (if ra > 0 \<and> rr \<noteq> 0 then [(s, NativeSend rr ra)] else [])
              @ [(s, NativeSend (Listing.seller (listings s tid)) sa),
                 (s, NativeSend (owner s) fee)]"
    by (simp add: transferPayments_journalled)
  with r show ?thesis
    by (auto simp: transfer_def journalling_def split: if_splits)
qed

lemma endAuction_journalled:
  assumes "endAuction journalling s j now sender tid = Inr (s', j')"
    and "currentBidder (auctions s tid) \<noteq> 0"
    and "calculateFees s tid (currentBid (auctions s tid)) = Inr (fee, rr, ra, sa)"
  shows "\<exists>m. j' = j @ (if ra > 0 \<and> rr \<noteq> 0 then [(m, NativeSend rr ra)] else [])
              @ [(m, NativeSend (Auction.seller (auctions s tid)) sa),
                 (m, NativeSend (owner s) fee)]"
  using assms
  by (auto simp: endAuction_def andThen_Inr Let_def transferPayments_journalled
      split: if_splits)

section \<open>Listing and auction exclude each other\<close>

lemma listNFT_in_auction:
  "Auction.active (auctions s tid) \<Longrightarrow> \<exists>e. listNFT s now sender tid amt tok = Inl e"
  by (cases "listNFT s now sender tid amt tok") (auto dest: listNFT_Inr)

lemma createAuction_when_listed:
  "Listing.active (listings s tid) \<Longrightarrow> \<exists>e. createAuction s now sender tid amt duration tok = Inl e"
  by (cases "createAuction s now sender tid amt duration tok") (auto dest: createAuction_Inr)

text \<open>
  C2. In every reachable state no item has an active listing and an active auction at
  the same time. \<open>listNFT\<close> fails when an auction is active for the item,
  \<open>createAuction\<close> fails when a listing is active for it, and a call that turns an
  inactive listing (auction) of an item into an active one is \<open>listNFT\<close>
  (\<open>createAuction\<close>) for that item: no other entry point activates either record.
\<close>

theorem listing_auction_exclusive:
  "(reachable r (s, w) \<longrightarrow>
      \<not> (Listing.active (listings s tid) \<and> Auction.active (auctions s tid)))
   \<and> (Auction.active (auctions sa tida) \<longrightarrow>
        (\<exists>e. listNFT sa nowa sendera tida amta toka = Inl e))
   \<and> (Listing.active (listings sl tidl) \<longrightarrow>
        (\<exists>e. createAuction sl nowl senderl tidl amtl durationl tokl = Inl e))
   \<and> (dispatch r1 s1 w1 now1 sender1 val1 c1 = Inr (s1', w1')
        \<and> Listing.active (listings s1' tid1) \<and> \<not> Listing.active (listings s1 tid1)
      \<longrightarrow> (\<exists>amt tok. c1 = ListNFT tid1 amt tok))
   \<and> (dispatch r2 s2 w2 now2 sender2 val2 c2 = Inr (s2', w2')
        \<and> Auction.active (auctions s2' tid2) \<and> \<not> Auction.active (auctions s2 tid2)
      \<longrightarrow> (\<exists>amt duration tok. c2 = CreateAuction tid2 amt duration tok))"
proof (intro conjI impI)
  assume "reachable r (s, w)"
  then have "exclusive s" using reachable_exclusive by fastforce
  then show "\<not> (Listing.active (listings s tid) \<and> Auction.active (auctions s tid))"
    by (simp add: exclusive_def)
next
  assume "Auction.active (auctions sa tida)"
  then show "\<exists>e. listNFT sa nowa sendera tida amta toka = Inl e" by (rule listNFT_in_auction)
next
  assume "Listing.active (listings sl tidl)"
  then show "\<exists>e. createAuction sl nowl senderl tidl amtl durationl tokl = Inl e"
    by (rule createAuction_when_listed)
next
  assume "dispatch r1 s1 w1 now1 sender1 val1 c1 = Inr (s1', w1')
        \<and> Listing.active (listings s1' tid1) \<and> \<not> Listing.active (listings s1 tid1)"
  then show "\<exists>amt tok. c1 = ListNFT tid1 amt tok"
    by (elim conjE) (rule dispatch_listing_activated)
next
  assume "dispatch r2 s2 w2 now2 sender2 val2 c2 = Inr (s2', w2')
        \<and> Auction.active (auctions s2' tid2) \<and> \<not> Auction.active (auctions s2 tid2)"
  then show "\<exists>amt duration tok. c2 = CreateAuction tid2 amt duration tok"
    by (elim conjE) (rule dispatch_auction_activated)
qed

lemma run_append: "run r (a @ b) sw = run r b (run r a sw)"
  by (induction r a sw rule: run.induct) simp_all

lemma reachable_deployment: "reachable accepting deployment"
  unfolding deployment_def by (rule reachable.deployed)

lemma reachable_script: "reachable accepting (fst (run accepting txs deployment), ())"
  using reachable_run [OF reachable_deployment, of txs]
  by (cases "run accepting txs deployment") simp

lemma approvedState_eq:
  "approvedState =
     \<lparr>self = 100, owner = 1, paused = False, owners = (\<lambda>_. 0)(0 := 2),
      tokenURIs = (\<lambda>_. [])(0 := []), tokenRoyaltyInfo = (\<lambda>_. (0, 0))(0 := (7, 500)),
      tokenIdCounter = 1, marketplaceFee = 250, usdtToken = 9,
      listings = (\<lambda>_. deletedListing), auctions = (\<lambda>_. deletedAuction),
      pendingWithdrawals = (\<lambda>_. 0), approvedNFTs = (\<lambda>_. False)(0 := True),
      events = [RoyaltySet 0 7 500, NFTMinted 0 2 [], NFTApproved 0 True]\<rparr>"
  by (simp add: script_defs ledger_defs entry_defs)

lemma listedState_step:
  "dispatch accepting approvedState () 5 2 0 (ListNFT 0 1000 0) = Inr (listedState, ())"
  by (simp add: listedState_eq approvedState_eq listNFT_def deletedListing_def
      deletedAuction_def ledger_defs)

lemma auctionState_eq:
  "auctionState =
     \<lparr>self = 100, owner = 1, paused = False, owners = (\<lambda>_. 0)(0 := 2),
      tokenURIs = (\<lambda>_. [])(0 := []), tokenRoyaltyInfo = (\<lambda>_. (0, 0))(0 := (7, 500)),
      tokenIdCounter = 1, marketplaceFee = 250, usdtToken = 9,
      listings = (\<lambda>_. deletedListing),
      auctions = (\<lambda>_. deletedAuction)(0 :=
        \<lparr>Auction.tokenId = 0, seller = 2, startingPrice = 500, currentBid = 0,
         currentBidder = 0, paymentToken = 0, endTime = 3610, active = True, createdAt = 10\<rparr>),
      pendingWithdrawals = (\<lambda>_. 0), approvedNFTs = (\<lambda>_. False)(0 := True),
      events = [RoyaltySet 0 7 500, NFTMinted 0 2 [], NFTApproved 0 True,
        AuctionCreated 0 2 500 3610 0]\<rparr>"
  by (simp add: script_defs ledger_defs entry_defs)

lemma auctionState_step:
  "dispatch accepting approvedState () 10 2 0 (CreateAuction 0 500 3600 0) = Inr (auctionState, ())"
  by (simp add: auctionState_eq approvedState_eq createAuction_def deletedListing_def
      deletedAuction_def ledger_defs)

theorem listing_auction_exclusive_witness:
  "reachable accepting (listedState, ())
   \<and> \<not> (Listing.active (listings listedState 0) \<and> Auction.active (auctions listedState 0))
   \<and> Auction.active (auctions auctionState 0)
   \<and> (\<exists>e. listNFT auctionState 20 2 0 1000 0 = Inl e)
   \<and> Listing.active (listings listedState 0)
   \<and> (\<exists>e. createAuction listedState 20 2 0 500 3600 0 = Inl e)
   \<and> dispatch accepting approvedState () 5 2 0 (ListNFT 0 1000 0) = Inr (listedState, ())
   \<and> \<not> Listing.active (listings approvedState 0)
   \<and> (\<exists>amt tok. ListNFT 0 1000 0 = ListNFT 0 amt tok)
   \<and> dispatch accepting approvedState () 10 2 0 (CreateAuction 0 500 3600 0)
       = Inr (auctionState, ())
   \<and> \<not> Auction.active (auctions approvedState 0)
   \<and> (\<exists>amt duration tok. CreateAuction 0 500 3600 0 = CreateAuction 0 amt duration tok)"
proof -
  have r: "reachable accepting (listedState, ())"
    unfolding listedState_def by (rule reachable_script)
  have a: "Auction.active (auctions auctionState 0)" by (simp add: auctionState_eq)
  have l: "Listing.active (listings listedState 0)" by (simp add: listedState_eq)
  have nl: "\<not> Listing.active (listings approvedState 0)"
    by (simp add: approvedState_eq deletedListing_def)
  have na: "\<not> Auction.active (auctions approvedState 0)"
    by (simp add: approvedState_eq deletedAuction_def)
  from listing_auction_exclusive
    [of accepting listedState "()" 0 auctionState 0 20 2 1000 0 listedState 0 20 2 500 3600 0
      accepting approvedState "()" 5 2 0 "ListNFT 0 1000 0" listedState "()" 0
      accepting approvedState "()" 10 2 0 "CreateAuction 0 500 3600 0" auctionState "()" 0]
  show ?thesis
    using r a l nl na listedState_step auctionState_step by simp
qed

section \<open>Bids\<close>

lemma placeBid_native:
  assumes "\<not> paused s" and "Auction.active (auctions s tid)"
    and "now < Auction.endTime (auctions s tid)"
    and "Auction.paymentToken (auctions s tid) = 0"
    and "sender \<noteq> Auction.seller (auctions s tid)"
  shows "placeBid s now sender val tid =
     (if \<not> startingPrice (auctions s tid) \<le> val then Inl BidBelowStartingPrice
      else if \<not> currentBid (auctions s tid) < val then Inl BidTooLow
      else if currentBidder (auctions s tid) = 0
        then Inr (emit (BidPlaced tid sender val)
               (s\<lparr>auctions := (auctions s)(tid :=
                    (auctions s tid)\<lparr>currentBid := val, currentBidder := sender\<rparr>)\<rparr>))
      else if \<not> unat (pendingWithdrawals s (currentBidder (auctions s tid)))
                 + unat (currentBid (auctions s tid)) < 2 ^ 256 then Inl ArithmeticPanic
      else Inr (emit (BidPlaced tid sender val)
               (s\<lparr>pendingWithdrawals := (pendingWithdrawals s)(currentBidder (auctions s tid) :=
                    pendingWithdrawals s (currentBidder (auctions s tid))
                      + currentBid (auctions s tid)),
                  auctions := (auctions s)(tid :=
                    (auctions s tid)\<lparr>currentBid := val, currentBidder := sender\<rparr>)\<rparr>)))"
  using assms
  by (simp add: placeBid_def withModifier_def whenNotPaused_def andThen_def checked_add_def
      Let_def)

text \<open>
  C3, as the code has it. On an active, unexpired, native-currency auction, for a bidder
  other than the seller and while the marketplace is not paused, a bid is accepted
  exactly when the amount tendered is at least the starting price, strictly more than
  the current highest bid, and the credit to the previous bidder (if there is one) fits
  in 256 bits. An accepted bid replaces the auction's current bid and bidder; the
  previous bidder's pending balance grows by exactly the previous bid, and no other
  pending balance changes.
\<close>

theorem placeBid_acceptance:
  assumes "\<not> paused s" and "Auction.active (auctions s tid)"
    and "now < Auction.endTime (auctions s tid)"
    and "Auction.paymentToken (auctions s tid) = 0"
    and "sender \<noteq> Auction.seller (auctions s tid)"
  shows "((\<exists>s'. placeBid s now sender val tid = Inr s') \<longleftrightarrow>
            startingPrice (auctions s tid) \<le> val \<and> currentBid (auctions s tid) < val
            \<and> (currentBidder (auctions s tid) \<noteq> 0 \<longrightarrow>
                 unat (pendingWithdrawals s (currentBidder (auctions s tid)))
                   + unat (currentBid (auctions s tid)) < 2 ^ 256))
       \<and> (placeBid s now sender val tid = Inr s' \<longrightarrow>
            auctions s' tid = (auctions s tid)\<lparr>currentBid := val, currentBidder := sender\<rparr>
          \<and> (currentBidder (auctions s tid) \<noteq> 0 \<longrightarrow>
               uint (pendingWithdrawals s' (currentBidder (auctions s tid)))
                 = uint (pendingWithdrawals s (currentBidder (auctions s tid)))
                   + uint (currentBid (auctions s tid)))
          \<and> (\<forall>a. a \<noteq> currentBidder (auctions s tid) \<longrightarrow>
                 pendingWithdrawals s' a = pendingWithdrawals s a)
          \<and> (currentBidder (auctions s tid) = 0 \<longrightarrow>
                 pendingWithdrawals s' = pendingWithdrawals s))"
proof (intro conjI impI)
  show "(\<exists>s'. placeBid s now sender val tid = Inr s') \<longleftrightarrow>
            startingPrice (auctions s tid) \<le> val \<and> currentBid (auctions s tid) < val
            \<and> (currentBidder (auctions s tid) \<noteq> 0 \<longrightarrow>
                 unat (pendingWithdrawals s (currentBidder (auctions s tid)))
                   + unat (currentBid (auctions s tid)) < 2 ^ 256)"
    by (simp add: placeBid_native [OF assms])
next
  assume ok: "placeBid s now sender val tid = Inr s'"
  show "auctions s' tid = (auctions s tid)\<lparr>currentBid := val, currentBidder := sender\<rparr>"
    using ok by (simp add: placeBid_native [OF assms] emit_def split: if_splits) auto
  show "\<forall>a. a \<noteq> currentBidder (auctions s tid) \<longrightarrow>
          pendingWithdrawals s' a = pendingWithdrawals s a"
    using ok by (simp add: placeBid_native [OF assms] emit_def split: if_splits) auto
  {
    assume "currentBidder (auctions s tid) = 0"
    then show "pendingWithdrawals s' = pendingWithdrawals s"
      using ok by (simp add: placeBid_native [OF assms] emit_def split: if_splits) auto
  }
  {
    assume prev: "currentBidder (auctions s tid) \<noteq> 0"
    have fits: "unat (pendingWithdrawals s (currentBidder (auctions s tid)))
                  + unat (currentBid (auctions s tid)) < 2 ^ 256"
      and new: "pendingWithdrawals s' (currentBidder (auctions s tid))
                  = pendingWithdrawals s (currentBidder (auctions s tid))
                    + currentBid (auctions s tid)"
      using ok prev by (auto simp: placeBid_native [OF assms] emit_def split: if_splits)
    have "unat (pendingWithdrawals s' (currentBidder (auctions s tid)))
            = unat (pendingWithdrawals s (currentBidder (auctions s tid)))
              + unat (currentBid (auctions s tid))"
      using fits unfolding new by (simp add: unat_add_lem [where 'a=256, simplified])
    then show "uint (pendingWithdrawals s' (currentBidder (auctions s tid)))
                 = uint (pendingWithdrawals s (currentBidder (auctions s tid)))
                   + uint (currentBid (auctions s tid))"
      by (rule uint_of_unat_sum2)
  }
qed

lemma bidState_eq:
  "bidState =
     \<lparr>self = 100, owner = 1, paused = False, owners = (\<lambda>_. 0)(0 := 2),
      tokenURIs = (\<lambda>_. [])(0 := []), tokenRoyaltyInfo = (\<lambda>_. (0, 0))(0 := (7, 500)),
      tokenIdCounter = 1, marketplaceFee = 250, usdtToken = 9,
      listings = (\<lambda>_. deletedListing),
      auctions = (\<lambda>_. deletedAuction)(0 :=
        \<lparr>Auction.tokenId = 0, seller = 2, startingPrice = 500, currentBid = 600,
         currentBidder = 3, paymentToken = 0, endTime = 3610, active = True, createdAt = 10\<rparr>),
      pendingWithdrawals = (\<lambda>_. 0), approvedNFTs = (\<lambda>_. False)(0 := True),
      events = [RoyaltySet 0 7 500, NFTMinted 0 2 [], NFTApproved 0 True,
        AuctionCreated 0 2 500 3610 0, BidPlaced 0 3 600]\<rparr>"
  by (simp add: script_defs ledger_defs entry_defs)

lemma outbidState_eq:
  "outbidState =
     \<lparr>self = 100, owner = 1, paused = False, owners = (\<lambda>_. 0)(0 := 2),
      tokenURIs = (\<lambda>_. [])(0 := []), tokenRoyaltyInfo = (\<lambda>_. (0, 0))(0 := (7, 500)),
      tokenIdCounter = 1, marketplaceFee = 250, usdtToken = 9,
      listings = (\<lambda>_. deletedListing),
      auctions = (\<lambda>_. deletedAuction)(0 :=
        \<lparr>Auction.tokenId = 0, seller = 2, startingPrice = 500, currentBid = 700,
         currentBidder = 4, paymentToken = 0, endTime = 3610, active = True, createdAt = 10\<rparr>),
      pendingWithdrawals = (\<lambda>_. 0)(3 := 600), approvedNFTs = (\<lambda>_. False)(0 := True),
      events = [RoyaltySet 0 7 500, NFTMinted 0 2 [], NFTApproved 0 True,
        AuctionCreated 0 2 500 3610 0, BidPlaced 0 3 600, BidPlaced 0 4 700]\<rparr>"
  by (simp add: script_defs ledger_defs entry_defs)

lemma outbidState_step: "placeBid bidState 30 4 700 0 = Inr outbidState"
  by (simp add: bidState_eq outbidState_eq placeBid_def ledger_defs)

lemma pausedAuctionState_eq: "pausedAuctionState = auctionState\<lparr>paused := True\<rparr>"
  by (simp add: script_defs ledger_defs entry_defs)

theorem placeBid_acceptance_witness:
  "\<not> paused bidState \<and> Auction.active (auctions bidState 0)
   \<and> 30 < Auction.endTime (auctions bidState 0)
   \<and> Auction.paymentToken (auctions bidState 0) = 0
   \<and> 4 \<noteq> Auction.seller (auctions bidState 0)
   \<and> startingPrice (auctions bidState 0) = 500 \<and> currentBid (auctions bidState 0) = 600
   \<and> currentBidder (auctions bidState 0) = 3
   \<and> placeBid bidState 30 4 700 0 = Inr outbidState
   \<and> currentBid (auctions outbidState 0) = 700 \<and> currentBidder (auctions outbidState 0) = 4
   \<and> uint (pendingWithdrawals outbidState 3) = uint (pendingWithdrawals bidState 3) + 600
   \<and> pendingWithdrawals outbidState 3 = 600"
proof -
  have h: "\<not> paused bidState" "Auction.active (auctions bidState 0)"
    "30 < Auction.endTime (auctions bidState 0)" "Auction.paymentToken (auctions bidState 0) = 0"
    "4 \<noteq> Auction.seller (auctions bidState 0)"
    by (simp_all add: bidState_eq)
  have v: "startingPrice (auctions bidState 0) = 500" "currentBid (auctions bidState 0) = 600"
    "currentBidder (auctions bidState 0) = 3"
    by (simp_all add: bidState_eq)
  have o: "currentBid (auctions outbidState 0) = 700" "currentBidder (auctions outbidState 0) = 4"
    "pendingWithdrawals outbidState 3 = 600"
    by (simp_all add: outbidState_eq)
  from placeBid_acceptance [OF h, of 700 outbidState] outbidState_step
  have "uint (pendingWithdrawals outbidState 3) = uint (pendingWithdrawals bidState 3) + 600"
    by (simp add: v)
  then show ?thesis using h v o outbidState_step by simp
qed

lemma pausedAuctionState_reachable: "reachable accepting (pausedAuctionState, ())"
  unfolding pausedAuctionState_def by (rule reachable_script)

theorem placeBid_paused_counterexample:
  "reachable accepting (pausedAuctionState, ())
   \<and> Auction.active (auctions pausedAuctionState 0)
   \<and> 20 < Auction.endTime (auctions pausedAuctionState 0)
   \<and> Auction.paymentToken (auctions pausedAuctionState 0) = 0
   \<and> 3 \<noteq> Auction.seller (auctions pausedAuctionState 0)
   \<and> startingPrice (auctions pausedAuctionState 0) \<le> 600
   \<and> currentBid (auctions pausedAuctionState 0) < 600
   \<and> placeBid pausedAuctionState 20 3 600 0 = Inl EnforcedPause"
  using pausedAuctionState_reachable
  by (simp add: pausedAuctionState_eq auctionState_eq placeBid_def withModifier_def
      whenNotPaused_def)

section \<open>Withdrawals\<close>

lemma withdraw_eq:
  "withdraw r s w sender =
     (if pendingWithdrawals s sender = 0 then Inl NoFundsToWithdraw
      else case pay r (s\<lparr>pendingWithdrawals := (pendingWithdrawals s)(sender := 0)\<rparr>) sender
                  (pendingWithdrawals s sender) w of
             None \<Rightarrow> Inl ExternalCallReverted
           | Some w' \<Rightarrow> Inr (s\<lparr>pendingWithdrawals := (pendingWithdrawals s)(sender := 0)\<rparr>, w'))"
  by (simp add: withdraw_def Let_def word_greater_zero_iff andThen_def transfer_def
      split: option.splits)

text \<open>
  C4. \<open>withdraw\<close> fails with \<open>NoFundsToWithdraw\<close> when the caller's pending balance is
  0, whatever the rail. Otherwise its only external call is the payout of the old
  balance, made on storage in which the caller's balance is already 0: a rail that
  refuses every payout invoked while the payee's recorded balance is nonzero gives the
  same result as the rail itself, and the journalling rail records exactly one call,
  the payout, together with the final storage, in which that balance is 0.
\<close>

theorem withdraw_clears_before_payout:
  "(pendingWithdrawals s sender = 0 \<longrightarrow> withdraw r s w sender = Inl NoFundsToWithdraw)
   \<and> (pendingWithdrawals s sender \<noteq> 0 \<longrightarrow>
        withdraw r s w sender =
          (case pay r (s\<lparr>pendingWithdrawals := (pendingWithdrawals s)(sender := 0)\<rparr>) sender
                  (pendingWithdrawals s sender) w of
             None \<Rightarrow> Inl ExternalCallReverted
           | Some w' \<Rightarrow> Inr (s\<lparr>pendingWithdrawals := (pendingWithdrawals s)(sender := 0)\<rparr>, w')))
   \<and> withdraw (payOnlyWhenCleared r) s w sender = withdraw r s w sender
   \<and> (withdraw journalling s j sender = Inr (s', j') \<longrightarrow>
        j' = j @ [(s', NativeSend sender (pendingWithdrawals s sender))]
        \<and> pendingWithdrawals s' sender = 0 \<and> pendingWithdrawals s sender \<noteq> 0)"
proof (intro conjI impI)
  show "withdraw (payOnlyWhenCleared r) s w sender = withdraw r s w sender"
    by (simp add: withdraw_eq payOnlyWhenCleared_def)
next
  assume ok: "withdraw journalling s j sender = Inr (s', j')"
  then show "j' = j @ [(s', NativeSend sender (pendingWithdrawals s sender))]"
    by (auto simp: withdraw_eq journalling_def split: if_splits)
  from ok show "pendingWithdrawals s' sender = 0"
    by (auto simp: withdraw_eq journalling_def split: if_splits)
  from ok show "pendingWithdrawals s sender \<noteq> 0"
    by (auto simp: withdraw_eq journalling_def split: if_splits)
qed (simp_all add: withdraw_eq)

theorem withdraw_clears_before_payout_witness:
  "pendingWithdrawals outbidState 4 = 0
   \<and> withdraw accepting outbidState () 4 = Inl NoFundsToWithdraw
   \<and> pendingWithdrawals outbidState 3 = 600
   \<and> withdraw accepting outbidState () 3 =
       Inr (outbidState\<lparr>pendingWithdrawals := (pendingWithdrawals outbidState)(3 := 0)\<rparr>, ())
   \<and> withdraw journalling outbidState [] 3 =
       Inr (outbidState\<lparr>pendingWithdrawals := (pendingWithdrawals outbidState)(3 := 0)\<rparr>,
            [(outbidState\<lparr>pendingWithdrawals := (pendingWithdrawals outbidState)(3 := 0)\<rparr>,
              NativeSend 3 600)])
   \<and> pendingWithdrawals
        (outbidState\<lparr>pendingWithdrawals := (pendingWithdrawals outbidState)(3 := 0)\<rparr>) 3 = 0"
proof -
  have z: "pendingWithdrawals outbidState 4 = 0" and p: "pendingWithdrawals outbidState 3 = 600"
    by (simp_all add: outbidState_eq)
  have a: "pay accepting
             (outbidState\<lparr>pendingWithdrawals := (pendingWithdrawals outbidState)(3 := 0)\<rparr>)
             3 600 () = Some ()"
    by (simp add: accepting_def)
  have j: "withdraw journalling outbidState [] 3 =
       Inr (outbidState\<lparr>pendingWithdrawals := (pendingWithdrawals outbidState)(3 := 0)\<rparr>,
            [(outbidState\<lparr>pendingWithdrawals := (pendingWithdrawals outbidState)(3 := 0)\<rparr>,
              NativeSend 3 600)])"
    by (simp add: withdraw_eq p journalling_def)
  from withdraw_clears_before_payout [of outbidState 4 accepting "()" "[]" outbidState "[]"]
    withdraw_clears_before_payout [of outbidState 3 accepting "()" "[]"
      "outbidState\<lparr>pendingWithdrawals := (pendingWithdrawals outbidState)(3 := 0)\<rparr>"
      "[(outbidState\<lparr>pendingWithdrawals := (pendingWithdrawals outbidState)(3 := 0)\<rparr>,
              NativeSend 3 600)]"]
  show ?thesis
    using z p a j by simp
qed

section \<open>Ending an auction\<close>

lemma endAuction_inactive:
  "\<not> Auction.active (auctions s tid) \<Longrightarrow> endAuction r s w now sender tid = Inl AuctionNotActive"
  by (simp add: endAuction_def)

lemma endAuction_no_bids:
  assumes "Auction.active (auctions s tid)" and "Auction.endTime (auctions s tid) \<le> now"
    and "currentBidder (auctions s tid) = 0"
  shows "endAuction r s w now sender tid =
     Inr (emit (AuctionEndedEvent tid 0 0) (s\<lparr>auctions := (auctions s)(tid := deletedAuction)\<rparr>), w)"
  using assms by (simp add: endAuction_def andThen_def emit_def Let_def)

lemma endAuction_winner:
  assumes "Auction.active (auctions s tid)" and "Auction.endTime (auctions s tid) \<le> now"
    and "currentBidder (auctions s tid) \<noteq> 0"
    and "calculateFees s tid (currentBid (auctions s tid)) = Inr (fee, rr, ra, sa)"
    and "transferPayments r
           (s\<lparr>auctions := (auctions s)(tid := (auctions s tid)\<lparr>Auction.active := False\<rparr>)\<rparr>)
           rr ra (Auction.seller (auctions s tid)) sa fee w = Inr w1"
    and "owners s tid = Auction.seller (auctions s tid)" and "owners s tid \<noteq> 0"
  shows "\<exists>s'. endAuction r s w now sender tid = Inr (s', w1)"
  using assms by (simp add: endAuction_def andThen_def Let_def transferNFT_def)

text \<open>
  C5, as the code has it. Once the end time has passed, a call to \<open>endAuction\<close> by any
  caller succeeds when no bid was placed, and, when there is a winning bid, whenever the
  settlement goes through: the fee and royalty split is computed without underflow,
  the payouts are accepted, and the seller still owns the item. Every successful call
  deletes the auction record (so clears its active flag), with or without a winner, and
  every later call for the item fails with \<open>AuctionNotActive\<close>.
\<close>

theorem endAuction_once:
  "(Auction.active (auctions s tid) \<and> Auction.endTime (auctions s tid) \<le> now
      \<and> currentBidder (auctions s tid) = 0 \<longrightarrow>
        endAuction r s w now sender tid =
          Inr (emit (AuctionEndedEvent tid 0 0)
                 (s\<lparr>auctions := (auctions s)(tid := deletedAuction)\<rparr>), w))
   \<and> (Auction.active (auctions s tid) \<and> Auction.endTime (auctions s tid) \<le> now
      \<and> currentBidder (auctions s tid) \<noteq> 0
      \<and> calculateFees s tid (currentBid (auctions s tid)) = Inr (fee, rr, ra, sa)
      \<and> transferPayments r
           (s\<lparr>auctions := (auctions s)(tid := (auctions s tid)\<lparr>Auction.active := False\<rparr>)\<rparr>)
           rr ra (Auction.seller (auctions s tid)) sa fee w = Inr w1
      \<and> owners s tid = Auction.seller (auctions s tid) \<and> owners s tid \<noteq> 0 \<longrightarrow>
        (\<exists>s'. endAuction r s w now sender tid = Inr (s', w1)))
   \<and> (endAuction r s w now sender tid = Inr (s', w') \<longrightarrow>
        auctions s' tid = deletedAuction \<and> \<not> Auction.active (auctions s' tid)
        \<and> endAuction r2 s' w2 now2 sender2 tid = Inl AuctionNotActive)"
proof (intro conjI impI)
  assume "Auction.active (auctions s tid) \<and> Auction.endTime (auctions s tid) \<le> now
      \<and> currentBidder (auctions s tid) = 0"
  then show "endAuction r s w now sender tid =
          Inr (emit (AuctionEndedEvent tid 0 0)
                 (s\<lparr>auctions := (auctions s)(tid := deletedAuction)\<rparr>), w)"
    by (simp add: endAuction_no_bids)
next
  assume "Auction.active (auctions s tid) \<and> Auction.endTime (auctions s tid) \<le> now
      \<and> currentBidder (auctions s tid) \<noteq> 0
      \<and> calculateFees s tid (currentBid (auctions s tid)) = Inr (fee, rr, ra, sa)
      \<and> transferPayments r
           (s\<lparr>auctions := (auctions s)(tid := (auctions s tid)\<lparr>Auction.active := False\<rparr>)\<rparr>)
           rr ra (Auction.seller (auctions s tid)) sa fee w = Inr w1
      \<and> owners s tid = Auction.seller (auctions s tid) \<and> owners s tid \<noteq> 0"
  then show "\<exists>s'. endAuction r s w now sender tid = Inr (s', w1)"
    by (elim conjE) (rule endAuction_winner)
next
  assume ok: "endAuction r s w now sender tid = Inr (s', w')"
  then have d: "auctions s' tid = deletedAuction"
    by (auto dest: endAuction_Inr)
  then show "auctions s' tid = deletedAuction" .
  from d show n: "\<not> Auction.active (auctions s' tid)" by (simp add: deletedAuction_def)
  then show "endAuction r2 s' w2 now2 sender2 tid = Inl AuctionNotActive"
    by (rule endAuction_inactive)
qed

lemma fullRoyaltyState_eq:
  "fullRoyaltyState =
     \<lparr>self = 100, owner = 1, paused = False, owners = (\<lambda>_. 0)(0 := 2),
      tokenURIs = (\<lambda>_. [])(0 := []), tokenRoyaltyInfo = (\<lambda>_. (0, 0))(0 := (7, 10000)),
      tokenIdCounter = 1, marketplaceFee = 250, usdtToken = 9,
      listings = (\<lambda>_. deletedListing),
      auctions = (\<lambda>_. deletedAuction)(0 :=
        \<lparr>Auction.tokenId = 0, seller = 2, startingPrice = 500, currentBid = 1000,
         currentBidder = 3, paymentToken = 0, endTime = 3610, active = True, createdAt = 10\<rparr>),
      pendingWithdrawals = (\<lambda>_. 0), approvedNFTs = (\<lambda>_. False)(0 := True),
      events = [RoyaltySet 0 7 10000, NFTMinted 0 2 [], NFTApproved 0 True,
        AuctionCreated 0 2 500 3610 0, BidPlaced 0 3 1000]\<rparr>"
  by (simp add: script_defs ledger_defs entry_defs)

lemma fullRoyaltyState_reachable: "reachable accepting (fullRoyaltyState, ())"
  unfolding fullRoyaltyState_def by (rule reachable_script)

lemma movedAuctionState_eq: "movedAuctionState = bidState\<lparr>owners := (\<lambda>_. 0)(0 := 4)\<rparr>"
  by (simp add: script_defs ledger_defs entry_defs)

lemma movedAuctionState_reachable: "reachable accepting (movedAuctionState, ())"
  unfolding movedAuctionState_def by (rule reachable_script)

theorem endAuction_stuck_counterexample:
  "reachable accepting (fullRoyaltyState, ())
   \<and> Auction.active (auctions fullRoyaltyState 0)
   \<and> Auction.endTime (auctions fullRoyaltyState 0) \<le> 4000
   \<and> currentBidder (auctions fullRoyaltyState 0) = 3
   \<and> currentBid (auctions fullRoyaltyState 0) = 1000
   \<and> marketplaceFee fullRoyaltyState = 250
   \<and> royaltyInfo fullRoyaltyState 0 1000 = Inr (7, 1000)
   \<and> endAuction accepting fullRoyaltyState () 4000 5 0 = Inl ArithmeticPanic
   \<and> reachable accepting (movedAuctionState, ())
   \<and> Auction.active (auctions movedAuctionState 0)
   \<and> Auction.endTime (auctions movedAuctionState 0) \<le> 4000
   \<and> currentBidder (auctions movedAuctionState 0) = 3
   \<and> Auction.seller (auctions movedAuctionState 0) = 2
   \<and> owners movedAuctionState 0 = 4
   \<and> endAuction accepting movedAuctionState () 4000 5 0 = Inl ERC721IncorrectOwner"
  using fullRoyaltyState_reachable movedAuctionState_reachable
  by (simp add: fullRoyaltyState_eq movedAuctionState_eq bidState_eq endAuction_def
      calculateFees_def transferPayments_def accepting_def ledger_defs)

lemma outbidState_fees: "calculateFees outbidState 0 700 = Inr (17, 7, 35, 648)"
  by (simp add: outbidState_eq calculateFees_def ledger_defs)

theorem endAuction_once_witness:
  "Auction.active (auctions auctionState 0) \<and> Auction.endTime (auctions auctionState 0) \<le> 4000
   \<and> currentBidder (auctions auctionState 0) = 0
   \<and> endAuction accepting auctionState () 4000 5 0 =
       Inr (emit (AuctionEndedEvent 0 0 0)
              (auctionState\<lparr>auctions := (auctions auctionState)(0 := deletedAuction)\<rparr>), ())
   \<and> endAuction accepting
        (emit (AuctionEndedEvent 0 0 0)
           (auctionState\<lparr>auctions := (auctions auctionState)(0 := deletedAuction)\<rparr>))
        () 5000 6 0 = Inl AuctionNotActive
   \<and> Auction.active (auctions outbidState 0) \<and> Auction.endTime (auctions outbidState 0) \<le> 4000
   \<and> currentBidder (auctions outbidState 0) = 4
   \<and> calculateFees outbidState 0 700 = Inr (17, 7, 35, 648)
   \<and> owners outbidState 0 = 2
   \<and> (\<exists>s'. endAuction accepting outbidState () 4000 5 0 = Inr (s', ()))"
proof -
  have a: "Auction.active (auctions auctionState 0)"
    "Auction.endTime (auctions auctionState 0) \<le> 4000"
    "currentBidder (auctions auctionState 0) = 0"
    by (simp_all add: auctionState_eq)
  have o: "Auction.active (auctions outbidState 0)"
    "Auction.endTime (auctions outbidState 0) \<le> 4000"
    "currentBidder (auctions outbidState 0) = 4" "currentBid (auctions outbidState 0) = 700"
    "Auction.seller (auctions outbidState 0) = 2" "owners outbidState 0 = 2"
    by (simp_all add: outbidState_eq)
  have t: "transferPayments accepting
             (outbidState\<lparr>auctions := (auctions outbidState)
                (0 := (auctions outbidState 0)\<lparr>Auction.active := False\<rparr>)\<rparr>)
             7 35 2 648 17 () = Inr ()"
    by (simp add: transferPayments_def transfer_def andThen_def accepting_def)
  note first = endAuction_once [where s = auctionState and tid = 0 and now = 4000
      and r = accepting and w = "()" and sender = 5 and fee = 0 and rr = 0 and ra = 0 and sa = 0
      and ?w1.0 = "()" and w' = "()" and ?r2.0 = accepting and ?w2.0 = "()" and ?now2.0 = 5000
      and ?sender2.0 = 6
      and s' = "emit (AuctionEndedEvent 0 0 0)
         (auctionState\<lparr>auctions := (auctions auctionState)(0 := deletedAuction)\<rparr>)"]
  note second = endAuction_once [where s = outbidState and tid = 0 and now = 4000
      and r = accepting and w = "()" and sender = 5 and fee = 17 and rr = 7 and ra = 35
      and sa = 648 and ?w1.0 = "()" and w' = "()" and ?r2.0 = accepting and ?w2.0 = "()"
      and ?now2.0 = 5000 and ?sender2.0 = 6 and s' = outbidState]
  from first a have
    "endAuction accepting auctionState () 4000 5 0 =
       Inr (emit (AuctionEndedEvent 0 0 0)
              (auctionState\<lparr>auctions := (auctions auctionState)(0 := deletedAuction)\<rparr>), ())"
    and "endAuction accepting
        (emit (AuctionEndedEvent 0 0 0)
           (auctionState\<lparr>auctions := (auctions auctionState)(0 := deletedAuction)\<rparr>))
        () 5000 6 0 = Inl AuctionNotActive"
    by simp_all
  moreover from second o t outbidState_fees
  have "\<exists>s'. endAuction accepting outbidState () 4000 5 0 = Inr (s', ())"
    by simp
  ultimately show ?thesis using a o outbidState_fees by simp
qed

section \<open>Bids on token-denominated auctions\<close>

lemma placeBid_token:
  assumes "Auction.paymentToken (auctions s tid) \<noteq> 0"
  shows "placeBid s now sender val tid =
     Inl (if paused s then EnforcedPause
          else if \<not> Auction.active (auctions s tid) then AuctionNotActive
          else if \<not> now < Auction.endTime (auctions s tid) then AuctionEnded
          else if sender = Auction.seller (auctions s tid) then CannotBidOnOwnAuction
          else if val \<noteq> 0 then ETHNotAcceptedForERC20Auction
          else ERC20AuctionsNotImplemented)"
  using assms
  by (simp add: placeBid_def withModifier_def whenNotPaused_def andThen_def Let_def)

text \<open>
  C6, as the code has it. Every bid on an auction denominated in the token is rejected,
  and nothing changes: no such bid is ever accepted. The error is
  \<open>ERC20AuctionsNotImplemented\<close> when the call passes the earlier checks (not paused,
  auction active and unexpired, bidder not the seller) and carries no native value; when
  it carries native value the error is \<open>ETHNotAcceptedForERC20Auction\<close>.
\<close>

theorem placeBid_token_rejected:
  assumes "Auction.paymentToken (auctions s tid) \<noteq> 0"
  shows "(\<exists>e. placeBid s now sender val tid = Inl e)
       \<and> persisted s (placeBid s now sender val tid) = s
       \<and> (\<not> paused s \<and> Auction.active (auctions s tid) \<and> now < Auction.endTime (auctions s tid)
            \<and> sender \<noteq> Auction.seller (auctions s tid) \<longrightarrow>
          placeBid s now sender val tid =
            Inl (if val = 0 then ERC20AuctionsNotImplemented else ETHNotAcceptedForERC20Auction))"
  by (simp add: placeBid_token [OF assms] persisted_def)

lemma tokenAuctionState_eq:
  "tokenAuctionState =
     \<lparr>self = 100, owner = 1, paused = False, owners = (\<lambda>_. 0)(0 := 2),
      tokenURIs = (\<lambda>_. [])(0 := []), tokenRoyaltyInfo = (\<lambda>_. (0, 0))(0 := (7, 500)),
      tokenIdCounter = 1, marketplaceFee = 250, usdtToken = 9,
      listings = (\<lambda>_. deletedListing),
      auctions = (\<lambda>_. deletedAuction)(0 :=
        \<lparr>Auction.tokenId = 0, seller = 2, startingPrice = 500, currentBid = 0,
         currentBidder = 0, paymentToken = 9, endTime = 3610, active = True, createdAt = 10\<rparr>),
      pendingWithdrawals = (\<lambda>_. 0), approvedNFTs = (\<lambda>_. False)(0 := True),
      events = [RoyaltySet 0 7 500, NFTMinted 0 2 [], NFTApproved 0 True,
        AuctionCreated 0 2 500 3610 9]\<rparr>"
  by (simp add: script_defs ledger_defs entry_defs)

lemma tokenAuctionState_reachable: "reachable accepting (tokenAuctionState, ())"
  unfolding tokenAuctionState_def by (rule reachable_script)

theorem placeBid_token_rejected_witness:
  "Auction.paymentToken (auctions tokenAuctionState 0) = 9
   \<and> \<not> paused tokenAuctionState \<and> Auction.active (auctions tokenAuctionState 0)
   \<and> 20 < Auction.endTime (auctions tokenAuctionState 0)
   \<and> 3 \<noteq> Auction.seller (auctions tokenAuctionState 0)
   \<and> placeBid tokenAuctionState 20 3 0 0 = Inl ERC20AuctionsNotImplemented
   \<and> persisted tokenAuctionState (placeBid tokenAuctionState 20 3 0 0) = tokenAuctionState"
proof -
  have t: "Auction.paymentToken (auctions tokenAuctionState 0) = 9"
    and g: "\<not> paused tokenAuctionState" "Auction.active (auctions tokenAuctionState 0)"
      "20 < Auction.endTime (auctions tokenAuctionState 0)"
      "3 \<noteq> Auction.seller (auctions tokenAuctionState 0)"
    by (simp_all add: tokenAuctionState_eq)
  have n: "Auction.paymentToken (auctions tokenAuctionState 0) \<noteq> 0"
    by (simp add: t)
  from placeBid_token_rejected [OF n, of 20 3 0] g t show ?thesis by (simp add: persisted_def)
qed

lemma tokenAuctionState_step:
  "createAuction approvedState 10 2 0 500 3600 9 = Inr tokenAuctionState"
  by (simp add: tokenAuctionState_eq approvedState_eq createAuction_def deletedListing_def
      deletedAuction_def ledger_defs)

theorem placeBid_token_counterexample:
  "reachable accepting (tokenAuctionState, ())
   \<and> createAuction approvedState 10 2 0 500 3600 9 = Inr tokenAuctionState
   \<and> Auction.paymentToken (auctions tokenAuctionState 0) = 9
   \<and> \<not> paused tokenAuctionState \<and> Auction.active (auctions tokenAuctionState 0)
   \<and> 20 < Auction.endTime (auctions tokenAuctionState 0)
   \<and> 3 \<noteq> Auction.seller (auctions tokenAuctionState 0)
   \<and> placeBid tokenAuctionState 20 3 600 0 = Inl ETHNotAcceptedForERC20Auction
   \<and> placeBid tokenAuctionState 20 3 600 0 \<noteq> Inl ERC20AuctionsNotImplemented"
  using tokenAuctionState_step tokenAuctionState_reachable
  by (simp add: tokenAuctionState_eq placeBid_def withModifier_def whenNotPaused_def
      andThen_def)

section \<open>Cancelling a listing\<close>

lemma cancelListing_eq:
  "cancelListing s sender tid =
     (if owners s tid = 0 then Inl ERC721NonexistentToken
      else if owners s tid \<noteq> sender then Inl NotTokenOwner
      else if \<not> Listing.active (listings s tid) then Inl NotListed
      else Inr (emit (ListingCancelled tid sender)
             (s\<lparr>listings := (listings s)(tid := deletedListing)\<rparr>)))"
  by (simp add: cancelListing_def withModifier_def onlyTokenOwner_def ownerOf_def)

lemma list_then_cancel:
  assumes "listNFT s now sender tid amt tok = Inr s1"
  shows "cancelListing s1 sender tid =
     Inr (emit (ListingCancelled tid sender) (emit (NFTListed tid sender amt tok)
            (s\<lparr>listings := (listings s)(tid := deletedListing)\<rparr>)))"
  using listNFT_Inr [OF assms] by (simp add: cancelListing_eq emit_def)

text \<open>
  C7, as the code has it. \<open>cancelListing\<close> checks the caller against the item's current
  owner, not against the seller recorded in the listing, and it checks this first: it
  fails with \<open>NotTokenOwner\<close> whenever the caller is not the owner of the (existing)
  item, and with \<open>NotListed\<close> when the caller is the owner and no listing is active. A
  successful call deletes the listing and changes nothing else but the event log: no
  external call is made (the world is unchanged), ownership, pending balances and
  auctions stay as they were, and in a reachable state the item is then neither listed
  nor under auction. Listing an item and cancelling again leaves the item unlisted,
  with the owner and the balances it started from.
\<close>

theorem cancelListing_rules:
  "(owners s tid \<noteq> 0 \<and> sender \<noteq> owners s tid \<longrightarrow>
      cancelListing s sender tid = Inl NotTokenOwner)
   \<and> (owners s tid = sender \<and> sender \<noteq> 0 \<and> \<not> Listing.active (listings s tid) \<longrightarrow>
      cancelListing s sender tid = Inl NotListed)
   \<and> (cancelListing s sender tid = Inr s' \<longrightarrow>
        listings s' = (listings s)(tid := deletedListing)
        \<and> \<not> Listing.active (listings s' tid)
        \<and> owners s' = owners s \<and> pendingWithdrawals s' = pendingWithdrawals s
        \<and> auctions s' = auctions s
        \<and> dispatch r s w now sender 0 (CancelListing tid) = Inr (s', w)
        \<and> (reachable r (s, w) \<longrightarrow> \<not> Auction.active (auctions s' tid)))
   \<and> (listNFT s0 now0 sender tid amt tok = Inr s1 \<longrightarrow>
        (\<exists>s2. cancelListing s1 sender tid = Inr s2
           \<and> listings s2 = (listings s0)(tid := deletedListing)
           \<and> owners s2 = owners s0 \<and> pendingWithdrawals s2 = pendingWithdrawals s0
           \<and> auctions s2 = auctions s0))"
proof (intro conjI impI)
  assume ok: "cancelListing s sender tid = Inr s'"
  note e = cancelListing_Inr [OF ok]
  show "listings s' = (listings s)(tid := deletedListing)" using e by (simp add: emit_def)
  show "\<not> Listing.active (listings s' tid)" using e by (simp add: emit_def deletedListing_def)
  show "owners s' = owners s" using e by (simp add: emit_def)
  show "pendingWithdrawals s' = pendingWithdrawals s" using e by (simp add: emit_def)
  show a: "auctions s' = auctions s" using e by (simp add: emit_def)
  show "dispatch r s w now sender 0 (CancelListing tid) = Inr (s', w)"
    using ok by (simp add: nonPayable_def internal_def andThen_def)
  {
    assume "reachable r (s, w)"
    then have "exclusive s" using reachable_exclusive by fastforce
    then show "\<not> Auction.active (auctions s' tid)"
      using e a by (simp add: exclusive_def)
  }
next
  assume l: "listNFT s0 now0 sender tid amt tok = Inr s1"
  show "\<exists>s2. cancelListing s1 sender tid = Inr s2
           \<and> listings s2 = (listings s0)(tid := deletedListing)
           \<and> owners s2 = owners s0 \<and> pendingWithdrawals s2 = pendingWithdrawals s0
           \<and> auctions s2 = auctions s0"
    by (simp add: list_then_cancel [OF l] emit_def)
qed (auto simp: cancelListing_eq)

lemma movedListingState_eq:
  "movedListingState = listedState\<lparr>owners := (\<lambda>_. 0)(0 := 4)\<rparr>"
  by (simp add: script_defs ledger_defs entry_defs)

lemma movedListingState_reachable: "reachable accepting (movedListingState, ())"
  unfolding movedListingState_def by (rule reachable_script)

lemma approvedState_reachable: "reachable accepting (approvedState, ())"
  unfolding approvedState_def by (rule reachable_script)

theorem cancelListing_counterexample:
  "reachable accepting (movedListingState, ())
   \<and> Listing.active (listings movedListingState 0)
   \<and> Listing.seller (listings movedListingState 0) = 2
   \<and> owners movedListingState 0 = 4
   \<and> cancelListing movedListingState 4 0 =
       Inr (emit (ListingCancelled 0 4)
              (movedListingState\<lparr>listings := (listings movedListingState)(0 := deletedListing)\<rparr>))
   \<and> reachable accepting (approvedState, ())
   \<and> \<not> Listing.active (listings approvedState 0)
   \<and> owners approvedState 0 = 2
   \<and> cancelListing approvedState 3 0 = Inl NotTokenOwner
   \<and> cancelListing approvedState 2 0 = Inl NotListed"
  using movedListingState_reachable approvedState_reachable
  by (simp add: cancelListing_eq movedListingState_eq listedState_eq approvedState_eq
      deletedListing_def)

theorem cancelListing_rules_witness:
  "owners listedState 0 = 2
   \<and> cancelListing listedState 3 0 = Inl NotTokenOwner
   \<and> \<not> Listing.active (listings approvedState 0)
   \<and> cancelListing approvedState 2 0 = Inl NotListed
   \<and> listNFT approvedState 5 2 0 1000 0 = Inr listedState
   \<and> reachable accepting (listedState, ())
   \<and> (\<exists>s2. cancelListing listedState 2 0 = Inr s2
         \<and> listings s2 = (listings approvedState)(0 := deletedListing)
         \<and> \<not> Listing.active (listings s2 0) \<and> \<not> Auction.active (auctions s2 0)
         \<and> owners s2 = owners approvedState
         \<and> pendingWithdrawals s2 = pendingWithdrawals approvedState)"
proof -
  have o: "owners listedState 0 = 2" "owners listedState 0 \<noteq> 0" "3 \<noteq> owners listedState 0"
    by (simp_all add: listedState_eq)
  have a: "owners approvedState 0 = 2" "(2 :: address) \<noteq> 0"
    "\<not> Listing.active (listings approvedState 0)"
    by (simp_all add: approvedState_eq deletedListing_def)
  have l: "listNFT approvedState 5 2 0 1000 0 = Inr listedState"
    using listedState_step by (simp add: nonPayable_def internal_Inr)
  have r: "reachable accepting (listedState, ())"
    unfolding listedState_def by (rule reachable_script)
  obtain s2 where c: "cancelListing listedState 2 0 = Inr s2"
    by (simp add: cancelListing_eq listedState_eq)
  note first = cancelListing_rules [where s = listedState and tid = 0 and sender = 3
      and s' = s2 and r = accepting and w = "()" and now = 0 and ?s0.0 = approvedState
      and ?now0.0 = 5 and amt = 1000 and tok = 0 and ?s1.0 = listedState]
  note second = cancelListing_rules [where s = approvedState and tid = 0 and sender = 2
      and s' = s2 and r = accepting and w = "()" and now = 0 and ?s0.0 = approvedState
      and ?now0.0 = 5 and amt = 1000 and tok = 0 and ?s1.0 = listedState]
  note third = cancelListing_rules [where s = listedState and tid = 0 and sender = 2
      and s' = s2 and r = accepting and w = "()" and now = 0 and ?s0.0 = approvedState
      and ?now0.0 = 5 and amt = 1000 and tok = 0 and ?s1.0 = listedState]
  have "cancelListing listedState 3 0 = Inl NotTokenOwner" using first o by simp
  moreover have "cancelListing approvedState 2 0 = Inl NotListed" using second a by simp
  moreover have "listings s2 = (listings approvedState)(0 := deletedListing)
         \<and> \<not> Listing.active (listings s2 0) \<and> \<not> Auction.active (auctions s2 0)
         \<and> owners s2 = owners approvedState
         \<and> pendingWithdrawals s2 = pendingWithdrawals approvedState"
    using third c l r by auto
  ultimately show ?thesis using o a l r c by (simp add: deletedListing_def)
qed

section \<open>The pause\<close>

lemma paused_rejects:
  assumes "paused s"
  shows "\<exists>e. listNFT s now sender tid amt tok = Inl e"
    and "buyNFT r s w sender val tid = Inl EnforcedPause"
    and "\<exists>e. createAuction s now sender tid amt duration tok = Inl e"
    and "placeBid s now sender val tid = Inl EnforcedPause"
proof -
  show "\<exists>e. listNFT s now sender tid amt tok = Inl e"
    using assms by (cases "listNFT s now sender tid amt tok") (auto dest: listNFT_Inr)
  show "\<exists>e. createAuction s now sender tid amt duration tok = Inl e"
    using assms
    by (cases "createAuction s now sender tid amt duration tok") (auto dest: createAuction_Inr)
  show "buyNFT r s w sender val tid = Inl EnforcedPause"
    using assms by (simp add: buyNFT_def withModifier_def whenNotPaused_def)
  show "placeBid s now sender val tid = Inl EnforcedPause"
    using assms by (simp add: placeBid_def withModifier_def whenNotPaused_def)
qed

lemma cancelListing_paused:
  "cancelListing (s\<lparr>paused := b\<rparr>) sender tid =
     map_sum id (\<lambda>s'. s'\<lparr>paused := b\<rparr>) (cancelListing s sender tid)"
  by (simp add: cancelListing_eq emit_def)

lemma royaltyInfo_paused [simp]: "royaltyInfo (s\<lparr>paused := b\<rparr>) tid p = royaltyInfo s tid p"
  by (simp add: royaltyInfo_def)

lemma calculateFees_paused [simp]:
  "calculateFees (s\<lparr>paused := b\<rparr>) tid p = calculateFees s tid p"
  by (simp add: calculateFees_def)

lemma transfer_paused:
  "pauseBlind r \<Longrightarrow> transfer r (m\<lparr>paused := b\<rparr>) to amount w = transfer r m to amount w"
  by (simp add: transfer_def pauseBlind_def)

lemma transferPayments_paused:
  "pauseBlind r \<Longrightarrow>
     transferPayments r (m\<lparr>paused := b\<rparr>) rr ra sl sa fee w = transferPayments r m rr ra sl sa fee w"
  by (simp add: transferPayments_def transfer_paused)

lemma transferNFT_paused:
  "transferNFT (s\<lparr>paused := b\<rparr>) from to tid =
     map_sum id (\<lambda>s'. s'\<lparr>paused := b\<rparr>) (transferNFT s from to tid)"
  by (simp add: transferNFT_def)

lemma map_sum_andThen:
  "andThen (map_sum id g x) f = andThen x (\<lambda>a. f (g a))"
  by (cases x) (simp_all add: andThen_def)

lemma endAuction_paused:
  assumes "pauseBlind r"
  shows "endAuction r (s\<lparr>paused := b\<rparr>) w now sender tid =
     map_sum id (apfst (\<lambda>s'. s'\<lparr>paused := b\<rparr>)) (endAuction r s w now sender tid)"
proof -
  have s1: "s\<lparr>paused := b, auctions := x\<rparr> = s\<lparr>auctions := x\<rparr>\<lparr>paused := b\<rparr>" for x
    by simp
  show ?thesis
    unfolding endAuction_def Let_def
    by (simp add: s1 transferPayments_paused [OF assms] transferNFT_paused emit_def
        del: NFTMarketplace.update_convs)
       (auto simp: andThen_def transferNFT_def split: sum.splits prod.splits)
qed

lemma withdraw_paused:
  assumes "pauseBlind r"
  shows "withdraw r (s\<lparr>paused := b\<rparr>) w sender =
     map_sum id (apfst (\<lambda>s'. s'\<lparr>paused := b\<rparr>)) (withdraw r s w sender)"
proof -
  have comm: "s\<lparr>paused := b, pendingWithdrawals := x\<rparr>
                = s\<lparr>pendingWithdrawals := x\<rparr>\<lparr>paused := b\<rparr>" for x
    by simp
  have "pay r (s\<lparr>paused := b, pendingWithdrawals := x\<rparr>) to amount w
          = pay r (s\<lparr>pendingWithdrawals := x\<rparr>) to amount w" for x to amount
    unfolding comm using assms by (simp only: pauseBlind_def)
  then show ?thesis
    by (simp add: withdraw_eq split: option.splits)
qed

text \<open>
  C8. While the marketplace is paused, every call to \<open>listNFT\<close>, \<open>buyNFT\<close>,
  \<open>createAuction\<close> and \<open>placeBid\<close> fails, and nothing of the storage (so neither the
  listings, nor the auctions, nor the ownership) is changed by the attempt.
  \<open>cancelListing\<close>, \<open>endAuction\<close> and \<open>withdraw\<close> behave exactly as on the same storage
  with the pause flag cleared: same failure, or same resulting storage and world up to
  the flag (for the two that pay out, on every rail whose payout does not itself
  consult the flag).
\<close>

theorem paused_behaviour:
  assumes "paused s"
  shows "(\<exists>e. listNFT s now sender tid amt tok = Inl e)
       \<and> buyNFT r s w sender val tid = Inl EnforcedPause
       \<and> (\<exists>e. createAuction s now sender tid amt duration tok = Inl e)
       \<and> placeBid s now sender val tid = Inl EnforcedPause
       \<and> persisted s (listNFT s now sender tid amt tok) = s
       \<and> persisted (s, w) (buyNFT r s w sender val tid) = (s, w)
       \<and> persisted s (createAuction s now sender tid amt duration tok) = s
       \<and> persisted s (placeBid s now sender val tid) = s
       \<and> cancelListing s sender tid =
           map_sum id (\<lambda>s'. s'\<lparr>paused := True\<rparr>) (cancelListing (s\<lparr>paused := False\<rparr>) sender tid)
       \<and> (pauseBlind r \<longrightarrow>
            endAuction r s w now sender tid =
              map_sum id (apfst (\<lambda>s'. s'\<lparr>paused := True\<rparr>))
                (endAuction r (s\<lparr>paused := False\<rparr>) w now sender tid))
       \<and> (pauseBlind r \<longrightarrow>
            withdraw r s w sender =
              map_sum id (apfst (\<lambda>s'. s'\<lparr>paused := True\<rparr>))
                (withdraw r (s\<lparr>paused := False\<rparr>) w sender))"
proof -
  note rej = paused_rejects [OF assms]
  have s: "s = (s\<lparr>paused := False\<rparr>)\<lparr>paused := True\<rparr>"
    using assms by simp
  obtain e1 where e1: "listNFT s now sender tid amt tok = Inl e1" using rej(1) by blast
  obtain e2 where e2: "createAuction s now sender tid amt duration tok = Inl e2"
    using rej(3) by blast
  have c: "cancelListing s sender tid =
      map_sum id (\<lambda>s'. s'\<lparr>paused := True\<rparr>) (cancelListing (s\<lparr>paused := False\<rparr>) sender tid)"
    using cancelListing_paused [where s = "s\<lparr>paused := False\<rparr>" and b = True] s by simp
  have e: "endAuction r s w now sender tid =
              map_sum id (apfst (\<lambda>s'. s'\<lparr>paused := True\<rparr>))
                (endAuction r (s\<lparr>paused := False\<rparr>) w now sender tid)" if "pauseBlind r"
    using endAuction_paused [OF that, where s = "s\<lparr>paused := False\<rparr>" and b = True] s
    by simp
  have wd: "withdraw r s w sender =
              map_sum id (apfst (\<lambda>s'. s'\<lparr>paused := True\<rparr>))
                (withdraw r (s\<lparr>paused := False\<rparr>) w sender)" if "pauseBlind r"
    using withdraw_paused [OF that, where s = "s\<lparr>paused := False\<rparr>" and b = True] s
    by simp
  have b: "buyNFT r s w sender val tid = Inl EnforcedPause"
    by (rule paused_rejects(2) [OF assms])
  have p: "placeBid s now sender val tid = Inl EnforcedPause"
    by (rule paused_rejects(4) [OF assms])
  show ?thesis
    using e1 e2 b p c e wd by (simp add: persisted_def)
qed

lemma pauseBlind_accepting: "pauseBlind accepting"
  by (simp add: pauseBlind_def accepting_def)

theorem paused_behaviour_witness:
  "paused pausedAuctionState \<and> pauseBlind accepting
   \<and> (\<exists>e. listNFT pausedAuctionState 20 2 0 1000 0 = Inl e)
   \<and> buyNFT accepting pausedAuctionState () 3 1000 0 = Inl EnforcedPause
   \<and> (\<exists>e. createAuction pausedAuctionState 20 2 0 500 3600 0 = Inl e)
   \<and> placeBid pausedAuctionState 20 3 600 0 = Inl EnforcedPause
   \<and> persisted pausedAuctionState (placeBid pausedAuctionState 20 3 600 0) = pausedAuctionState
   \<and> cancelListing pausedAuctionState 2 0 = Inl NotListed
   \<and> endAuction accepting pausedAuctionState () 4000 5 0 =
       map_sum id (apfst (\<lambda>s'. s'\<lparr>paused := True\<rparr>))
         (endAuction accepting auctionState () 4000 5 0)
   \<and> endAuction accepting auctionState () 4000 5 0 =
       Inr (emit (AuctionEndedEvent 0 0 0)
              (auctionState\<lparr>auctions := (auctions auctionState)(0 := deletedAuction)\<rparr>), ())
   \<and> withdraw accepting pausedAuctionState () 3 =
       map_sum id (apfst (\<lambda>s'. s'\<lparr>paused := True\<rparr>)) (withdraw accepting auctionState () 3)"
proof -
  have p: "paused pausedAuctionState" by (simp add: pausedAuctionState_eq)
  have u: "pausedAuctionState\<lparr>paused := False\<rparr> = auctionState"
    by (simp add: pausedAuctionState_eq auctionState_eq)
  have c: "cancelListing auctionState 2 0 = Inl NotListed"
    by (simp add: cancelListing_eq auctionState_eq deletedListing_def)
  have e: "endAuction accepting auctionState () 4000 5 0 =
       Inr (emit (AuctionEndedEvent 0 0 0)
              (auctionState\<lparr>auctions := (auctions auctionState)(0 := deletedAuction)\<rparr>), ())"
    by (rule endAuction_no_bids) (simp_all add: auctionState_eq)
  from paused_behaviour [OF p, where now = 20 and sender = 2 and tid = 0 and amt = 1000
      and tok = 0 and duration = 3600 and r = accepting and w = "()" and val = 0]
  have l: "\<exists>e. listNFT pausedAuctionState 20 2 0 1000 0 = Inl e" by simp
  from paused_behaviour [OF p, where now = 20 and sender = 2 and tid = 0 and amt = 500
      and tok = 0 and duration = 3600 and r = accepting and w = "()" and val = 0]
  have a: "\<exists>e. createAuction pausedAuctionState 20 2 0 500 3600 0 = Inl e"
    and cl: "cancelListing pausedAuctionState 2 0 = Inl NotListed"
    by (simp_all add: u c)
  from paused_behaviour [OF p, where now = 20 and sender = 3 and tid = 0 and amt = 500
      and tok = 0 and duration = 3600 and r = accepting and w = "()" and val = 600]
  have b: "placeBid pausedAuctionState 20 3 600 0 = Inl EnforcedPause"
    and bp: "persisted pausedAuctionState (placeBid pausedAuctionState 20 3 600 0)
               = pausedAuctionState"
    and wd: "withdraw accepting pausedAuctionState () 3 =
       map_sum id (apfst (\<lambda>s'. s'\<lparr>paused := True\<rparr>)) (withdraw accepting auctionState () 3)"
    using pauseBlind_accepting by (simp_all add: u persisted_def)
  from paused_behaviour [OF p, where now = 20 and sender = 3 and tid = 0 and amt = 500
      and tok = 0 and duration = 3600 and r = accepting and w = "()" and val = 1000]
  have bu: "buyNFT accepting pausedAuctionState () 3 1000 0 = Inl EnforcedPause" by simp
  from paused_behaviour [OF p, where now = 4000 and sender = 5 and tid = 0 and amt = 500
      and tok = 0 and duration = 3600 and r = accepting and w = "()" and val = 0]
  have en: "endAuction accepting pausedAuctionState () 4000 5 0 =
       map_sum id (apfst (\<lambda>s'. s'\<lparr>paused := True\<rparr>))
         (endAuction accepting auctionState () 4000 5 0)"
    using pauseBlind_accepting by (simp add: u)
  show ?thesis
    using p pauseBlind_accepting l a b bp cl bu en e wd by simp
qed

section \<open>Creating a listing or an auction moves nothing\<close>

text \<open>
  C9. A successful \<open>listNFT\<close> or \<open>createAuction\<close> makes no external call (the world
  is as it was, so no funds move), leaves every item's owner and every pending balance
  unchanged, and touches no record but the one it creates. The item is not taken into
  escrow: once listed or put under auction it is still owned by the caller, who is
  recorded as the seller.
\<close>

theorem creation_moves_nothing:
  "(dispatch r s w now sender val (ListNFT tid amt tok) = Inr (s', w') \<longrightarrow>
      w' = w \<and> owners s' = owners s \<and> owners s' tid = sender
      \<and> pendingWithdrawals s' = pendingWithdrawals s \<and> auctions s' = auctions s
      \<and> (\<forall>t. t \<noteq> tid \<longrightarrow> listings s' t = listings s t)
      \<and> Listing.active (listings s' tid) \<and> Listing.seller (listings s' tid) = sender)
   \<and> (dispatch r s w now sender val (CreateAuction tid amt duration tok) = Inr (s2, w2) \<longrightarrow>
      w2 = w \<and> owners s2 = owners s \<and> owners s2 tid = sender
      \<and> pendingWithdrawals s2 = pendingWithdrawals s \<and> listings s2 = listings s
      \<and> (\<forall>t. t \<noteq> tid \<longrightarrow> auctions s2 t = auctions s t)
      \<and> Auction.active (auctions s2 tid) \<and> Auction.seller (auctions s2 tid) = sender)"
proof (intro conjI impI)
  assume "dispatch r s w now sender val (ListNFT tid amt tok) = Inr (s', w')"
  then have l: "listNFT s now sender tid amt tok = Inr s'" and w: "w' = w"
    by (simp_all add: dispatch_Inr)
  note e = listNFT_Inr [OF l]
  show "w' = w" by (rule w)
  show "owners s' = owners s" using e by (simp add: emit_def)
  show "owners s' tid = sender" using e by (simp add: emit_def)
  show "pendingWithdrawals s' = pendingWithdrawals s" using e by (simp add: emit_def)
  show "auctions s' = auctions s" using e by (simp add: emit_def)
  show "\<forall>t. t \<noteq> tid \<longrightarrow> listings s' t = listings s t" using e by (simp add: emit_def)
  show "Listing.active (listings s' tid)" using e by (simp add: emit_def)
  show "Listing.seller (listings s' tid) = sender" using e by (simp add: emit_def)
next
  assume "dispatch r s w now sender val (CreateAuction tid amt duration tok) = Inr (s2, w2)"
  then have l: "createAuction s now sender tid amt duration tok = Inr s2" and w: "w2 = w"
    by (simp_all add: dispatch_Inr)
  note e = createAuction_Inr [OF l]
  show "w2 = w" by (rule w)
  show "owners s2 = owners s" using e by (auto simp: emit_def)
  show "owners s2 tid = sender" using e by (auto simp: emit_def)
  show "pendingWithdrawals s2 = pendingWithdrawals s" using e by (auto simp: emit_def)
  show "listings s2 = listings s" using e by (auto simp: emit_def)
  show "\<forall>t. t \<noteq> tid \<longrightarrow> auctions s2 t = auctions s t" using e by (auto simp: emit_def)
  show "Auction.active (auctions s2 tid)" using e by (auto simp: emit_def)
  show "Auction.seller (auctions s2 tid) = sender" using e by (auto simp: emit_def)
qed

theorem creation_moves_nothing_witness:
  "dispatch accepting approvedState () 5 2 0 (ListNFT 0 1000 0) = Inr (listedState, ())
   \<and> owners listedState = owners approvedState \<and> owners listedState 0 = 2
   \<and> pendingWithdrawals listedState = pendingWithdrawals approvedState
   \<and> auctions listedState = auctions approvedState
   \<and> listings listedState 1 = listings approvedState 1
   \<and> dispatch accepting approvedState () 10 2 0 (CreateAuction 0 500 3600 0)
       = Inr (auctionState, ())
   \<and> owners auctionState = owners approvedState \<and> owners auctionState 0 = 2
   \<and> pendingWithdrawals auctionState = pendingWithdrawals approvedState
   \<and> listings auctionState = listings approvedState
   \<and> auctions auctionState 1 = auctions approvedState 1"
proof -
  note a = creation_moves_nothing [where r = accepting and s = approvedState and w = "()"
      and now = 5 and sender = 2 and val = 0 and tid = 0 and amt = 1000 and tok = 0
      and duration = 3600 and s' = listedState and w' = "()" and ?s2.0 = auctionState
      and ?w2.0 = "()"]
  note b = creation_moves_nothing [where r = accepting and s = approvedState and w = "()"
      and now = 10 and sender = 2 and val = 0 and tid = 0 and amt = 500 and tok = 0
      and duration = 3600 and s' = listedState and w' = "()" and ?s2.0 = auctionState
      and ?w2.0 = "()"]
  have o: "owners approvedState 0 = 2" by (simp add: approvedState_eq)
  from a listedState_step o have
    "owners listedState = owners approvedState \<and> owners listedState 0 = 2
     \<and> pendingWithdrawals listedState = pendingWithdrawals approvedState
     \<and> auctions listedState = auctions approvedState
     \<and> listings listedState 1 = listings approvedState 1"
    by simp
  moreover from b auctionState_step o have
    "owners auctionState = owners approvedState \<and> owners auctionState 0 = 2
     \<and> pendingWithdrawals auctionState = pendingWithdrawals approvedState
     \<and> listings auctionState = listings approvedState
     \<and> auctions auctionState 1 = auctions approvedState 1"
    by simp
  ultimately show ?thesis using listedState_step auctionState_step o by simp
qed

section \<open>The payment token of a listing\<close>

lemma transferPayments_journal:
  "transferPayments journalling m rr ra sl sa fee j = Inr j' \<Longrightarrow>
     \<exists>cs. j' = j @ cs \<and> (\<forall>(m, c) \<in> set cs. currency c = 0)"
  by (auto simp: transferPayments_def andThen_Inr transfer_def journalling_def split: if_splits)

lemma transferTokenPayments_journal:
  "transferTokenPayments journalling m tok rr ra sl sa fee j = Inr j' \<Longrightarrow>
     \<exists>cs. j' = j @ cs \<and> (\<forall>(m, c) \<in> set cs. currency c = tok)"
  by (auto simp: transferTokenPayments_def andThen_Inr requireCall_def journalling_def
      split: if_splits)

lemma buyNFT_journal:
  assumes "buyNFT journalling s j sender val tid = Inr (s', j')"
  shows "\<exists>cs. j' = j @ cs
           \<and> (\<forall>(m, c) \<in> set cs. currency c = Listing.paymentToken (listings s tid))"
proof (cases "Listing.paymentToken (listings s tid) = 0")
  case True
  with assms obtain fee rr ra sa j1 where
    t: "transferPayments journalling s rr ra (Listing.seller (listings s tid)) sa fee j = Inr j1"
    and r: "(if val > Listing.price (listings s tid)
             then transfer journalling s sender (val - Listing.price (listings s tid)) j1
             else Inr j1) = Inr j'"
    by (auto simp: buyNFT_def withModifier_Inr andThen_Inr Let_def split: if_splits)
  from transferPayments_journal [OF t] obtain cs where
    cs: "j1 = j @ cs" "\<forall>(m, c) \<in> set cs. currency c = 0" by blast
  from r cs True show ?thesis
    by (auto simp: transfer_def journalling_def split: if_splits)
next
  case False
  with assms obtain fee rr ra sa j1 where
    p: "requireCall (erc20_transferFrom journalling s (Listing.paymentToken (listings s tid))
          sender (self s) (Listing.price (listings s tid)) j) PaymentTransferFailed = Inr j1"
    and t: "transferTokenPayments journalling s (Listing.paymentToken (listings s tid)) rr ra
          (Listing.seller (listings s tid)) sa fee j1 = Inr j'"
    by (auto simp: buyNFT_def withModifier_Inr andThen_Inr Let_def split: if_splits)
  from transferTokenPayments_journal [OF t] obtain cs where
    cs: "j' = j1 @ cs"
      "\<forall>(m, c) \<in> set cs. currency c = Listing.paymentToken (listings s tid)" by blast
  from p cs show ?thesis
    by (auto simp: requireCall_def journalling_def)
qed

text \<open>
  C10. \<open>setUSDTToken\<close> changes no listing, no auction, no owner and no pending balance.
  A purchase made after it settles in the payment token recorded in the listing when
  it was created, whatever the accepted token is by then: every external call the
  purchase makes moves that currency (the token, or native currency for a native
  listing), and the sale is reported in it.
\<close>

theorem payment_token_fixed:
  "setUSDTToken s sender usdt = Inr s' \<longrightarrow>
     listings s' = listings s \<and> auctions s' = auctions s \<and> owners s' = owners s
     \<and> pendingWithdrawals s' = pendingWithdrawals s
     \<and> (buyNFT journalling s' j buyer val tid = Inr (s'', j') \<longrightarrow>
          (\<exists>cs. j' = j @ cs
             \<and> (\<forall>(m, c) \<in> set cs. currency c = Listing.paymentToken (listings s tid)))
          \<and> events s'' = events s' @
               [NFTSold tid (Listing.seller (listings s tid)) buyer
                  (Listing.price (listings s tid)) (Listing.paymentToken (listings s tid))])"
proof (intro impI conjI)
  assume set: "setUSDTToken s sender usdt = Inr s'"
  note e = setUSDTToken_Inr [OF set]
  show l: "listings s' = listings s" using e by (simp add: emit_def)
  show "auctions s' = auctions s" using e by (simp add: emit_def)
  show "owners s' = owners s" using e by (simp add: emit_def)
  show "pendingWithdrawals s' = pendingWithdrawals s" using e by (simp add: emit_def)
  {
    assume buy: "buyNFT journalling s' j buyer val tid = Inr (s'', j')"
    show "\<exists>cs. j' = j @ cs
             \<and> (\<forall>(m, c) \<in> set cs. currency c = Listing.paymentToken (listings s tid))"
      using buyNFT_journal [OF buy] l by simp
    show "events s'' = events s' @
               [NFTSold tid (Listing.seller (listings s tid)) buyer
                  (Listing.price (listings s tid)) (Listing.paymentToken (listings s tid))]"
      using buyNFT_Inr [OF buy] l by (simp add: emit_def)
  }
qed

lemma tokenListedState_eq:
  "tokenListedState =
     \<lparr>self = 100, owner = 1, paused = False, owners = (\<lambda>_. 0)(0 := 2),
      tokenURIs = (\<lambda>_. [])(0 := []), tokenRoyaltyInfo = (\<lambda>_. (0, 0))(0 := (7, 500)),
      tokenIdCounter = 1, marketplaceFee = 250, usdtToken = 9,
      listings = (\<lambda>_. deletedListing)(0 :=
        \<lparr>Listing.tokenId = 0, seller = 2, price = 1000, paymentToken = 9, active = True,
         createdAt = 5\<rparr>),
      auctions = (\<lambda>_. deletedAuction), pendingWithdrawals = (\<lambda>_. 0),
      approvedNFTs = (\<lambda>_. False)(0 := True),
      events = [RoyaltySet 0 7 500, NFTMinted 0 2 [], NFTApproved 0 True, NFTListed 0 2 1000 9]\<rparr>"
  by (simp add: script_defs ledger_defs entry_defs)

lemma retokenedState_eq:
  "retokenedState =
     tokenListedState\<lparr>usdtToken := 8,
       events := [RoyaltySet 0 7 500, NFTMinted 0 2 [], NFTApproved 0 True,
         NFTListed 0 2 1000 9, USDTTokenUpdated 8]\<rparr>"
  by (simp add: script_defs ledger_defs entry_defs)

lemma retokenedState_step: "setUSDTToken tokenListedState 1 8 = Inr retokenedState"
  by (simp add: retokenedState_eq tokenListedState_eq setUSDTToken_def withModifier_def
      onlyOwner_def emit_def)

lemma retokenedState_buy:
  "buyNFT journalling retokenedState [] 3 0 0 =
     Inr (emit (NFTSold 0 2 3 1000 9)
            (retokenedState\<lparr>owners := (owners retokenedState)(0 := 3),
               listings := (listings retokenedState)(0 := deletedListing)\<rparr>),
          [(retokenedState, Erc20TransferFrom 9 3 100 1000),
           (retokenedState, Erc20Transfer 9 7 50),
           (retokenedState, Erc20Transfer 9 2 925),
           (retokenedState, Erc20Transfer 9 1 25)])"
  by (simp add: buyNFT_def calculateFees_def transferTokenPayments_def retokenedState_eq
      tokenListedState_eq script_defs ledger_defs)

theorem payment_token_fixed_witness:
  "setUSDTToken tokenListedState 1 8 = Inr retokenedState
   \<and> usdtToken retokenedState = 8
   \<and> Listing.paymentToken (listings tokenListedState 0) = 9
   \<and> listings retokenedState = listings tokenListedState
   \<and> auctions retokenedState = auctions tokenListedState
   \<and> owners retokenedState = owners tokenListedState
   \<and> pendingWithdrawals retokenedState = pendingWithdrawals tokenListedState
   \<and> buyNFT journalling retokenedState [] 3 0 0 =
       Inr (emit (NFTSold 0 2 3 1000 9)
              (retokenedState\<lparr>owners := (owners retokenedState)(0 := 3),
                 listings := (listings retokenedState)(0 := deletedListing)\<rparr>),
            [(retokenedState, Erc20TransferFrom 9 3 100 1000),
             (retokenedState, Erc20Transfer 9 7 50),
             (retokenedState, Erc20Transfer 9 2 925),
             (retokenedState, Erc20Transfer 9 1 25)])
   \<and> list_all (\<lambda>(m, c). currency c = 9)
         [(retokenedState, Erc20TransferFrom 9 3 100 1000),
          (retokenedState, Erc20Transfer 9 7 50),
          (retokenedState, Erc20Transfer 9 2 925),
          (retokenedState, Erc20Transfer 9 1 25)]"
proof -
  have t: "Listing.paymentToken (listings tokenListedState 0) = 9"
    and u: "usdtToken retokenedState = 8"
    by (simp_all add: tokenListedState_eq retokenedState_eq)
  from payment_token_fixed [where s = tokenListedState and sender = 1 and usdt = 8
      and s' = retokenedState and j = "[]" and buyer = 3 and val = 0 and tid = 0
      and s'' = "emit (NFTSold 0 2 3 1000 9)
              (retokenedState\<lparr>owners := (owners retokenedState)(0 := 3),
                 listings := (listings retokenedState)(0 := deletedListing)\<rparr>)"
      and j' = "[(retokenedState, Erc20TransferFrom 9 3 100 1000),
             (retokenedState, Erc20Transfer 9 7 50),
             (retokenedState, Erc20Transfer 9 2 925),
             (retokenedState, Erc20Transfer 9 1 25)]"]
    retokenedState_step retokenedState_buy t u
  show ?thesis
    by simp
qed

end
